theory Spec2Isabelle
  imports Main "HOL-Library.Word"
begin

unbundle bit_operations_syntax

section \<open>Error kinds\<close>

text \<open>
  The values of \<open>keymaster_error_t\<close> that the modelled code returns. The enum itself is
  declared in the platform header \<open>keymaster_defs.h\<close>; only the names matter here.
\<close>

datatype keymaster_error_t =
    KM_ERROR_OK
  | KM_ERROR_UNSUPPORTED_PURPOSE
  | KM_ERROR_UNSUPPORTED_ALGORITHM
  | KM_ERROR_UNSUPPORTED_KEY_SIZE
  | KM_ERROR_UNSUPPORTED_MAC_LENGTH
  | KM_ERROR_UNSUPPORTED_DIGEST
  | KM_ERROR_UNSUPPORTED_TAG
  | KM_ERROR_INVALID_INPUT_LENGTH
  | KM_ERROR_INVALID_OPERATION_HANDLE
  | KM_ERROR_INVALID_TAG
  | KM_ERROR_INVALID_DSA_PARAMS
  | KM_ERROR_IMPORT_PARAMETER_MISMATCH
  | KM_ERROR_VERIFICATION_FAILED
  | KM_ERROR_TOO_MANY_OPERATIONS
  | KM_ERROR_MEMORY_ALLOCATION_FAILED
  | KM_ERROR_UNKNOWN_ERROR

section \<open>Tags, authorizations and authorization sets\<close>

text \<open>
  The tags the modelled code names. The enum \<open>keymaster_tag_t\<close> is declared in the platform
  header \<open>keymaster_defs.h\<close>; each tag carries the type of its value.
\<close>

datatype keymaster_tag_t =
    KM_TAG_PURPOSE
  | KM_TAG_ALGORITHM
  | KM_TAG_KEY_SIZE
  | KM_TAG_BLOCK_MODE
  | KM_TAG_DIGEST
  | KM_TAG_MAC_LENGTH
  | KM_TAG_PADDING
  | KM_TAG_CHUNK_LENGTH
  | KM_TAG_CALLER_NONCE
  | KM_TAG_RSA_PUBLIC_EXPONENT
  | KM_TAG_DSA_GENERATOR
  | KM_TAG_DSA_P
  | KM_TAG_DSA_Q
  | KM_TAG_USER_ID
  | KM_TAG_USER_AUTH_ID
  | KM_TAG_AUTH_TIMEOUT
  | KM_TAG_RESCOPE_AUTH_TIMEOUT
  | KM_TAG_APPLICATION_ID
  | KM_TAG_APPLICATION_DATA
  | KM_TAG_CREATION_DATETIME
  | KM_TAG_ORIGIN
  | KM_TAG_ROLLBACK_RESISTANT
  | KM_TAG_ROOT_OF_TRUST

datatype keymaster_algorithm_t =
    KM_ALGORITHM_RSA
  | KM_ALGORITHM_DSA
  | KM_ALGORITHM_ECDSA
  | KM_ALGORITHM_AES
  | KM_ALGORITHM_HMAC

datatype keymaster_digest_t =
    KM_DIGEST_NONE
  | KM_DIGEST_MD5
  | KM_DIGEST_SHA1
  | KM_DIGEST_SHA_2_224
  | KM_DIGEST_SHA_2_256
  | KM_DIGEST_SHA_2_384
  | KM_DIGEST_SHA_2_512

datatype keymaster_purpose_t =
    KM_PURPOSE_ENCRYPT
  | KM_PURPOSE_DECRYPT
  | KM_PURPOSE_SIGN
  | KM_PURPOSE_VERIFY

datatype keymaster_key_origin_t =
    KM_ORIGIN_HARDWARE
  | KM_ORIGIN_SOFTWARE
  | KM_ORIGIN_IMPORTED

text \<open>
  The value of a \<open>keymaster_key_param_t\<close> is a C union read according to the type of the
  tag. The model keeps the member that was written: the enumerations by their own types,
  \<open>integer\<close> as a \<open>uint32_t\<close>, \<open>long_integer\<close> and \<open>date_time\<close> as 64-bit words, a blob as its
  bytes.
\<close>

datatype km_value =
    Algorithm keymaster_algorithm_t
  | Digest keymaster_digest_t
  | Purpose keymaster_purpose_t
  | Origin keymaster_key_origin_t
  | Enumerated "32 word"
  | Boolean bool
  | Integer "32 word"
  | Long_integer "64 word"
  | Date_time "64 word"
  | Blob "8 word list"

datatype keymaster_key_param_t =
  Authorization (tag: keymaster_tag_t) (val: km_value)

text \<open>
  Modelled from the spec: the class \<open>AuthorizationSet\<close> (\<open>authorization_set.cpp\<close> is not
  among the sources). The spec gives it as an ordered, duplicate-preserving sequence of
  authorizations where \<open>push_back\<close> appends and a lookup by tag returns the first
  occurrence. Allocation does not fail in the model, so a set is always valid.
\<close>

type_synonym AuthorizationSet = "keymaster_key_param_t list"

datatype AuthorizationSet_Error = OK | ALLOCATION_FAILURE | MALFORMED_DATA

definition is_valid :: "AuthorizationSet \<Rightarrow> AuthorizationSet_Error" where
  "is_valid s = OK"

definition push_back :: "AuthorizationSet \<Rightarrow> keymaster_key_param_t \<Rightarrow> AuthorizationSet" where
  "push_back s elem = s @ [elem]"

definition GetTagValue :: "AuthorizationSet \<Rightarrow> keymaster_tag_t \<Rightarrow> km_value option" where
  "GetTagValue s t = map_option val (List.find (\<lambda>p. tag p = t) s)"

definition contains_tag :: "AuthorizationSet \<Rightarrow> keymaster_tag_t \<Rightarrow> bool" where
  "contains_tag s t = (GetTagValue s t \<noteq> None)"

text \<open>
  The typed overloads of \<open>GetTagValue\<close>: each reads the member of the union that belongs
  to the type of the tag. An entry whose stored member is of another type cannot be
  built with the typed \<open>Authorization(tag, value)\<close> constructors; the model reads it as
  absent.
\<close>

definition GetTagValue_int :: "AuthorizationSet \<Rightarrow> keymaster_tag_t \<Rightarrow> 32 word option" where
  "GetTagValue_int s t = (case GetTagValue s t of Some (Integer v) \<Rightarrow> Some v | _ \<Rightarrow> None)"

definition GetTagValue_long :: "AuthorizationSet \<Rightarrow> keymaster_tag_t \<Rightarrow> 64 word option" where
  "GetTagValue_long s t = (case GetTagValue s t of Some (Long_integer v) \<Rightarrow> Some v | _ \<Rightarrow> None)"

definition GetTagValue_algorithm ::
  "AuthorizationSet \<Rightarrow> keymaster_tag_t \<Rightarrow> keymaster_algorithm_t option" where
  "GetTagValue_algorithm s t = (case GetTagValue s t of Some (Algorithm v) \<Rightarrow> Some v | _ \<Rightarrow> None)"

definition GetTagValue_digest ::
  "AuthorizationSet \<Rightarrow> keymaster_tag_t \<Rightarrow> keymaster_digest_t option" where
  "GetTagValue_digest s t = (case GetTagValue s t of Some (Digest v) \<Rightarrow> Some v | _ \<Rightarrow> None)"

definition GetTagValue_blob :: "AuthorizationSet \<Rightarrow> keymaster_tag_t \<Rightarrow> 8 word list option" where
  "GetTagValue_blob s t = (case GetTagValue s t of Some (Blob v) \<Rightarrow> Some v | _ \<Rightarrow> None)"

section \<open>Message versions\<close>

text \<open>
  \<open>MessageVersion\<close> of the messages header: the three \<open>uint8_t\<close> arguments are promoted,
  shifted and or-ed into a \<open>uint32_t\<close>, and a \<open>switch\<close> maps \<open>0x000\<close> to 0, \<open>0x100\<close> to 1 and
  everything else to -1. The result is an \<open>int32_t\<close>; the three values it takes are
  written as integers.
\<close>

definition MessageVersion :: "8 word \<Rightarrow> 8 word \<Rightarrow> 8 word \<Rightarrow> int" where
  "MessageVersion major_ver minor_ver subminor_ver =
     (let composite_ver = (push_bit 16 (ucast major_ver) OR push_bit 8 (ucast minor_ver)
                             OR ucast subminor_ver :: 32 word)
      in if composite_ver = 0x000 then 0
         else if composite_ver = 0x100 then 1
         else - 1)"

definition MAX_MESSAGE_VERSION :: int where
  "MAX_MESSAGE_VERSION = 1"

text \<open>The version that \<open>GoogleKeymaster::GetVersion\<close> reports.\<close>

definition MAJOR_VER :: "8 word" where "MAJOR_VER = 1"

definition MINOR_VER :: "8 word" where "MINOR_VER = 0"

definition SUBMINOR_VER :: "8 word" where "SUBMINOR_VER = 0"

section \<open>Keys and the crypto backend\<close>

text \<open>
  A key object holds the backend's key and the key's authorizations (\<open>Key::authorizations_\<close>).
\<close>

record 'k Key =
  key_handle :: 'k
  authorizations :: AuthorizationSet

text \<open>
  What the code reads of an OpenSSL \<open>RSA\<close> object: the size of the modulus and the public
  exponent \<open>e\<close>. \<open>RSA_size\<close> is the size of the modulus in bytes, as the OpenSSL manual
  defines it.
\<close>

record RSA =
  modulus_bits :: nat
  rsa_e :: nat

definition RSA_size :: "RSA \<Rightarrow> int" where
  "RSA_size r = int ((modulus_bits r + 7) div 8)"

text \<open>
  \<open>BN_get_word\<close> of the OpenSSL manual, for a 64-bit \<open>BN_ULONG\<close>: the number itself when it
  fits the word, all ones otherwise.
\<close>

definition BN_get_word :: "nat \<Rightarrow> 64 word" where
  "BN_get_word a = (if a < 2 ^ 64 then of_nat a else - 1)"

record DSA =
  dsa_g :: nat
  dsa_p :: nat
  dsa_q :: nat

datatype nid =
    NID_X9_62_prime192v1
  | NID_secp224r1
  | NID_X9_62_prime256v1
  | NID_secp384r1
  | NID_secp521r1

datatype EVP_PKEY = EVP_PKEY_RSA RSA | EVP_PKEY_DSA DSA | EVP_PKEY_EC nid

fun EVP_PKEY_get1_RSA :: "EVP_PKEY \<Rightarrow> RSA option" where
  "EVP_PKEY_get1_RSA (EVP_PKEY_RSA r) = Some r"
| "EVP_PKEY_get1_RSA _ = None"

section \<open>RSA keys\<close>

definition RSA_DEFAULT_KEY_SIZE :: "32 word" where
  "RSA_DEFAULT_KEY_SIZE = 2048"

definition RSA_DEFAULT_EXPONENT :: "64 word" where
  "RSA_DEFAULT_EXPONENT = 65537"

text \<open>
  \<open>RsaKey::GenerateKey\<close> with the outcomes of its OpenSSL calls: the allocations that the
  code tests, \<open>BN_set_word\<close>, the key that \<open>RSA_generate_key_ex\<close> produces for a size and
  an exponent (none when it fails), and \<open>new RsaKey\<close>.
\<close>

record rsa_backend =
  RSA_new_ok :: bool
  RSA_EVP_PKEY_new_ok :: bool
  BN_set_word_ok :: bool
  RSA_generate_key_ex :: "32 word \<Rightarrow> 64 word \<Rightarrow> RSA option"
  new_RsaKey_ok :: bool

definition RsaKey_GenerateKey ::
  "rsa_backend \<Rightarrow> AuthorizationSet \<Rightarrow> keymaster_error_t + RSA Key" where
  "RsaKey_GenerateKey env key_description =
     (let (public_exponent, auths1) =
            (case GetTagValue_long key_description KM_TAG_RSA_PUBLIC_EXPONENT of
               Some x \<Rightarrow> (x, key_description)
             | None \<Rightarrow> (RSA_DEFAULT_EXPONENT,
                        push_back key_description
                          (Authorization KM_TAG_RSA_PUBLIC_EXPONENT
                             (Long_integer RSA_DEFAULT_EXPONENT))));
          (key_size, auths2) =
            (case GetTagValue_int auths1 KM_TAG_KEY_SIZE of
               Some k \<Rightarrow> (k, auths1)
             | None \<Rightarrow> (RSA_DEFAULT_KEY_SIZE,
                        push_back auths1
                          (Authorization KM_TAG_KEY_SIZE (Integer RSA_DEFAULT_KEY_SIZE))))
      in if \<not> RSA_new_ok env \<or> \<not> RSA_EVP_PKEY_new_ok env
           then Inl KM_ERROR_MEMORY_ALLOCATION_FAILED
         else if \<not> BN_set_word_ok env then Inl KM_ERROR_UNKNOWN_ERROR
         else (case RSA_generate_key_ex env key_size public_exponent of
                 None \<Rightarrow> Inl KM_ERROR_UNKNOWN_ERROR
               | Some rsa_key \<Rightarrow>
                   if new_RsaKey_ok env
                     then Inr \<lparr>key_handle = rsa_key, authorizations = auths2\<rparr>
                   else Inl KM_ERROR_MEMORY_ALLOCATION_FAILED))"

text \<open>
  \<open>RsaKey::ImportKey\<close>. The out-parameter \<open>*error\<close> and the returned pointer become one
  sum: \<open>Inl\<close> the error of a \<open>NULL\<close> return, \<open>Inr\<close> the new key. \<open>bn_ok\<close> is the outcome of
  \<open>BN_set_word\<close> on the freshly allocated number. The comparison of the key size is the
  one of the source: \<open>RSA_size(rsa_key.get()) != (int)key_size\<close>.
\<close>

definition RsaKey_ImportKey ::
  "bool \<Rightarrow> AuthorizationSet \<Rightarrow> EVP_PKEY \<Rightarrow> keymaster_error_t + RSA Key" where
  "RsaKey_ImportKey bn_ok key_description pkey =
     (case EVP_PKEY_get1_RSA pkey of
        None \<Rightarrow> Inl KM_ERROR_UNKNOWN_ERROR
      | Some rsa_key \<Rightarrow>
         (case (case GetTagValue_long key_description KM_TAG_RSA_PUBLIC_EXPONENT of
                  Some public_exponent \<Rightarrow>
                    if \<not> bn_ok then Inl KM_ERROR_UNKNOWN_ERROR
                    else if unat public_exponent \<noteq> rsa_e rsa_key
                      then Inl KM_ERROR_IMPORT_PARAMETER_MISMATCH
                    else Inr key_description
                | None \<Rightarrow>
                    let public_exponent = BN_get_word (rsa_e rsa_key) in
                    if public_exponent = 0xffffffff then Inl KM_ERROR_IMPORT_PARAMETER_MISMATCH
                    else Inr (push_back key_description
                                (Authorization KM_TAG_RSA_PUBLIC_EXPONENT
                                   (Long_integer public_exponent)))) of
            Inl err \<Rightarrow> Inl err
          | Inr auths1 \<Rightarrow>
             (case (case GetTagValue_int auths1 KM_TAG_KEY_SIZE of
                      Some key_size \<Rightarrow>
                        if RSA_size rsa_key \<noteq> sint key_size
                          then Inl KM_ERROR_IMPORT_PARAMETER_MISMATCH
                        else Inr auths1
                    | None \<Rightarrow>
                        let key_size = (of_int (RSA_size rsa_key * 8) :: 32 word) in
                        Inr (push_back auths1 (Authorization KM_TAG_KEY_SIZE (Integer key_size)))) of
                Inl err \<Rightarrow> Inl err
              | Inr auths2 \<Rightarrow>
                 (case GetTagValue_algorithm auths2 KM_TAG_ALGORITHM of
                    Some algorithm \<Rightarrow>
                      if algorithm \<noteq> KM_ALGORITHM_RSA then Inl KM_ERROR_IMPORT_PARAMETER_MISMATCH
                      else Inr \<lparr>key_handle = rsa_key, authorizations = auths2\<rparr>
                  | None \<Rightarrow>
                      Inr \<lparr>key_handle = rsa_key,
                           authorizations = push_back auths2
                             (Authorization KM_TAG_ALGORITHM (Algorithm KM_ALGORITHM_RSA))\<rparr>))))"

text \<open>The 1024-bit test key of the import tests, with public exponent 65537.\<close>

definition rsa_1024 :: RSA where
  "rsa_1024 = \<lparr>modulus_bits = 1024, rsa_e = 65537\<rparr>"

section \<open>ECDSA key generation\<close>

text \<open>
  The outcomes of the OpenSSL calls of the key generation, which the code tests one by
  one: the allocations (\<open>EC_KEY_new\<close>, \<open>EVP_PKEY_new\<close>, \<open>EC_GROUP_new_by_curve_name\<close>,
  \<open>new EcdsaKey\<close>), \<open>EC_KEY_set_group\<close>, \<open>EC_KEY_generate_key\<close> and the value of
  \<open>EC_KEY_check_key\<close>. The generated key is represented by its curve.
\<close>

record ec_backend =
  EC_KEY_new_ok :: bool
  EC_EVP_PKEY_new_ok :: bool
  EC_GROUP_new_ok :: bool
  EC_KEY_set_group_ok :: bool
  EC_KEY_generate_key_ok :: bool
  EC_KEY_check_key :: int
  new_EcdsaKey_ok :: bool

definition EC_GROUP_new_by_curve_name :: "ec_backend \<Rightarrow> nid \<Rightarrow> nid option" where
  "EC_GROUP_new_by_curve_name env n = (if EC_GROUP_new_ok env then Some n else None)"

text \<open>The key factory of the current sources: default size 224, four curves.\<close>

definition ECDSA_DEFAULT_KEY_SIZE :: "32 word" where
  "ECDSA_DEFAULT_KEY_SIZE = 224"

definition EcdsaKeyFactory_choose_group :: "ec_backend \<Rightarrow> nat \<Rightarrow> nid option" where
  "EcdsaKeyFactory_choose_group env key_size_bits =
     (if key_size_bits = 224 then EC_GROUP_new_by_curve_name env NID_secp224r1
      else if key_size_bits = 256 then EC_GROUP_new_by_curve_name env NID_X9_62_prime256v1
      else if key_size_bits = 384 then EC_GROUP_new_by_curve_name env NID_secp384r1
      else if key_size_bits = 521 then EC_GROUP_new_by_curve_name env NID_secp521r1
      else None)"

definition EcdsaKeyFactory_GenerateKey ::
  "ec_backend \<Rightarrow> AuthorizationSet \<Rightarrow> keymaster_error_t + nid Key" where
  "EcdsaKeyFactory_GenerateKey env key_description =
     (let (key_size, auths) =
            (case GetTagValue_int key_description KM_TAG_KEY_SIZE of
               Some k \<Rightarrow> (k, key_description)
             | None \<Rightarrow> (ECDSA_DEFAULT_KEY_SIZE,
                        push_back key_description
                          (Authorization KM_TAG_KEY_SIZE (Integer ECDSA_DEFAULT_KEY_SIZE))))
      in if \<not> EC_KEY_new_ok env \<or> \<not> EC_EVP_PKEY_new_ok env
           then Inl KM_ERROR_MEMORY_ALLOCATION_FAILED
         else (case EcdsaKeyFactory_choose_group env (unat key_size) of
                 None \<Rightarrow> Inl KM_ERROR_UNSUPPORTED_KEY_SIZE
               | Some grp \<Rightarrow>
                   if \<not> EC_KEY_set_group_ok env \<or> \<not> EC_KEY_generate_key_ok env
                        \<or> EC_KEY_check_key env < 0
                     then Inl KM_ERROR_UNKNOWN_ERROR
                   else if new_EcdsaKey_ok env
                     then Inr \<lparr>key_handle = grp, authorizations = auths\<rparr>
                   else Inl KM_ERROR_MEMORY_ALLOCATION_FAILED))"

text \<open>
  The older \<open>EcdsaKey::GenerateKey\<close> of \<open>asymmetric_key.cpp\<close>: the same steps with default
  size 192 and five curves.
\<close>

definition ECDSA_DEFAULT_KEY_SIZE_old :: "32 word" where
  "ECDSA_DEFAULT_KEY_SIZE_old = 192"

definition EcdsaKey_choose_group :: "ec_backend \<Rightarrow> nat \<Rightarrow> nid option" where
  "EcdsaKey_choose_group env key_size_bits =
     (if key_size_bits = 192 then EC_GROUP_new_by_curve_name env NID_X9_62_prime192v1
      else if key_size_bits = 224 then EC_GROUP_new_by_curve_name env NID_secp224r1
      else if key_size_bits = 256 then EC_GROUP_new_by_curve_name env NID_X9_62_prime256v1
      else if key_size_bits = 384 then EC_GROUP_new_by_curve_name env NID_secp384r1
      else if key_size_bits = 521 then EC_GROUP_new_by_curve_name env NID_secp521r1
      else None)"

definition EcdsaKey_GenerateKey ::
  "ec_backend \<Rightarrow> AuthorizationSet \<Rightarrow> keymaster_error_t + nid Key" where
  "EcdsaKey_GenerateKey env key_description =
     (let (key_size, auths) =
            (case GetTagValue_int key_description KM_TAG_KEY_SIZE of
               Some k \<Rightarrow> (k, key_description)
             | None \<Rightarrow> (ECDSA_DEFAULT_KEY_SIZE_old,
                        push_back key_description
                          (Authorization KM_TAG_KEY_SIZE (Integer ECDSA_DEFAULT_KEY_SIZE_old))))
      in if \<not> EC_KEY_new_ok env \<or> \<not> EC_EVP_PKEY_new_ok env
           then Inl KM_ERROR_MEMORY_ALLOCATION_FAILED
         else (case EcdsaKey_choose_group env (unat key_size) of
                 None \<Rightarrow> Inl KM_ERROR_UNSUPPORTED_KEY_SIZE
               | Some grp \<Rightarrow>
                   if \<not> EC_KEY_set_group_ok env \<or> \<not> EC_KEY_generate_key_ok env
                        \<or> EC_KEY_check_key env < 0
                     then Inl KM_ERROR_UNKNOWN_ERROR
                   else if new_EcdsaKey_ok env
                     then Inr \<lparr>key_handle = grp, authorizations = auths\<rparr>
                   else Inl KM_ERROR_MEMORY_ALLOCATION_FAILED))"

text \<open>A backend in which every call succeeds.\<close>

definition ec_backend_ok :: "ec_backend \<Rightarrow> bool" where
  "ec_backend_ok env =
     (EC_KEY_new_ok env \<and> EC_EVP_PKEY_new_ok env \<and> EC_GROUP_new_ok env
      \<and> EC_KEY_set_group_ok env \<and> EC_KEY_generate_key_ok env \<and> 0 \<le> EC_KEY_check_key env
      \<and> new_EcdsaKey_ok env)"

definition good_ec_backend :: ec_backend where
  "good_ec_backend =
     \<lparr>EC_KEY_new_ok = True, EC_EVP_PKEY_new_ok = True, EC_GROUP_new_ok = True,
      EC_KEY_set_group_ok = True, EC_KEY_generate_key_ok = True, EC_KEY_check_key = 1,
      new_EcdsaKey_ok = True\<rparr>"

text \<open>The curve that the claim assigns to a key size.\<close>

definition named_curve :: "32 word \<Rightarrow> nid option" where
  "named_curve k =
     (if k = 192 then Some NID_X9_62_prime192v1
      else if k = 224 then Some NID_secp224r1
      else if k = 256 then Some NID_X9_62_prime256v1
      else if k = 384 then Some NID_secp384r1
      else if k = 521 then Some NID_secp521r1
      else None)"

section \<open>DSA key generation\<close>

text \<open>
  The OpenSSL calls of \<open>DsaKey::GenerateKey\<close> with their outcomes: the allocations, the
  parameters that \<open>DSA_generate_parameters_ex\<close> produces for a key size (none when it
  fails), \<open>BN_bin2bn\<close> (none when it fails), \<open>DSA_generate_key\<close>, and the helper
  \<open>convert_bn_to_blob\<close> of \<open>openssl_utils\<close>, which is not among the sources.
\<close>

record dsa_backend =
  DSA_new_ok :: bool
  DSA_EVP_PKEY_new_ok :: bool
  DSA_generate_parameters_ex :: "32 word \<Rightarrow> DSA option"
  BN_bin2bn :: "8 word list \<Rightarrow> nat option"
  convert_bn_to_blob :: "nat \<Rightarrow> 8 word list"
  DSA_generate_key_ok :: bool
  new_DsaKey_ok :: bool

definition DSA_DEFAULT_KEY_SIZE :: "32 word" where
  "DSA_DEFAULT_KEY_SIZE = 2048"

text \<open>
  \<open>GetDsaParamData\<close> leaves \<open>blob->data = NULL\<close> when the tag is absent; \<open>None\<close> stands for
  the \<open>NULL\<close> data pointer, and a blob that is present has one that is not \<open>NULL\<close>.
\<close>

definition GetDsaParamData :: "AuthorizationSet \<Rightarrow> keymaster_tag_t \<Rightarrow> 8 word list option" where
  "GetDsaParamData auths t = GetTagValue_blob auths t"

definition SetDsaParamData ::
  "dsa_backend \<Rightarrow> AuthorizationSet \<Rightarrow> keymaster_tag_t \<Rightarrow> nat \<Rightarrow> AuthorizationSet" where
  "SetDsaParamData env auths t number =
     push_back auths (Authorization t (Blob (convert_bn_to_blob env number)))"

text \<open>
  \<open>DsaKey::GenerateKey\<close>. The three-way test on the \<open>data\<close> pointers of the source (all
  \<open>NULL\<close>; some \<open>NULL\<close>; none \<open>NULL\<close>) is the case distinction on the three blobs.
\<close>

definition DsaKey_GenerateKey ::
  "dsa_backend \<Rightarrow> AuthorizationSet \<Rightarrow> keymaster_error_t + DSA Key" where
  "DsaKey_GenerateKey env key_description =
     (let g_blob = GetDsaParamData key_description KM_TAG_DSA_GENERATOR;
          p_blob = GetDsaParamData key_description KM_TAG_DSA_P;
          q_blob = GetDsaParamData key_description KM_TAG_DSA_Q;
          (key_size, auths) =
            (case GetTagValue_int key_description KM_TAG_KEY_SIZE of
               Some k \<Rightarrow> (k, key_description)
             | None \<Rightarrow> (DSA_DEFAULT_KEY_SIZE,
                        push_back key_description
                          (Authorization KM_TAG_KEY_SIZE (Integer DSA_DEFAULT_KEY_SIZE))))
      in if \<not> DSA_new_ok env \<or> \<not> DSA_EVP_PKEY_new_ok env
           then Inl KM_ERROR_MEMORY_ALLOCATION_FAILED
         else
           (case (case (g_blob, p_blob, q_blob) of
                    (None, None, None) \<Rightarrow>
                      (case DSA_generate_parameters_ex env key_size of
                         None \<Rightarrow> Inl KM_ERROR_INVALID_DSA_PARAMS
                       | Some dsa_key \<Rightarrow>
                           Inr (dsa_key,
                                SetDsaParamData env
                                  (SetDsaParamData env
                                     (SetDsaParamData env auths KM_TAG_DSA_GENERATOR
                                        (dsa_g dsa_key))
                                     KM_TAG_DSA_P (dsa_p dsa_key))
                                  KM_TAG_DSA_Q (dsa_q dsa_key)))
                  | (Some g_data, Some p_data, Some q_data) \<Rightarrow>
                      (case (BN_bin2bn env g_data, BN_bin2bn env p_data, BN_bin2bn env q_data) of
                         (Some g, Some p, Some q) \<Rightarrow>
                           Inr (\<lparr>dsa_g = g, dsa_p = p, dsa_q = q\<rparr>, auths)
                       | _ \<Rightarrow> Inl KM_ERROR_INVALID_DSA_PARAMS)
                  | _ \<Rightarrow> Inl KM_ERROR_INVALID_DSA_PARAMS) of
              Inl err \<Rightarrow> Inl err
            | Inr (dsa_key, auths') \<Rightarrow>
                if \<not> DSA_generate_key_ok env then Inl KM_ERROR_UNKNOWN_ERROR
                else if new_DsaKey_ok env
                  then Inr \<lparr>key_handle = dsa_key, authorizations = auths'\<rparr>
                else Inl KM_ERROR_MEMORY_ALLOCATION_FAILED))"

text \<open>The key size that generation uses, and the authorizations after the default.\<close>

definition dsa_key_size :: "AuthorizationSet \<Rightarrow> 32 word" where
  "dsa_key_size D = (case GetTagValue_int D KM_TAG_KEY_SIZE of Some k \<Rightarrow> k | None \<Rightarrow> 2048)"

definition dsa_with_key_size :: "AuthorizationSet \<Rightarrow> AuthorizationSet" where
  "dsa_with_key_size D =
     (case GetTagValue_int D KM_TAG_KEY_SIZE of
        Some k \<Rightarrow> D
      | None \<Rightarrow> D @ [Authorization KM_TAG_KEY_SIZE (Integer 2048)])"

text \<open>How many of the three parameter tags a key description carries.\<close>

definition dsa_params_present :: "AuthorizationSet \<Rightarrow> nat" where
  "dsa_params_present D =
     (if GetTagValue_blob D KM_TAG_DSA_GENERATOR \<noteq> None then 1 else 0)
     + (if GetTagValue_blob D KM_TAG_DSA_P \<noteq> None then 1 else 0)
     + (if GetTagValue_blob D KM_TAG_DSA_Q \<noteq> None then 1 else 0)"


section \<open>Authorizations of a new key\<close>

text \<open>
  \<open>GoogleKeymaster\<close> is abstract: the implementation supplies \<open>is_enforced\<close>, \<open>origin\<close>,
  \<open>RootOfTrustTag\<close>, \<open>MasterKey\<close> and \<open>GenerateNonce\<close>. \<open>GenerateNonce\<close> writes into the
  caller's buffer; the model passes the buffer in and gets it back. An implementation
  may draw the nonce from a random source; \<open>rng_state\<close> is the state of that source at
  the call, the bytes it is going to deliver.
\<close>

type_synonym rng_state = "nat \<Rightarrow> 8 word"

record keymaster_impl =
  is_enforced :: "keymaster_tag_t \<Rightarrow> bool"
  origin :: keymaster_key_origin_t
  RootOfTrustTag :: keymaster_key_param_t
  MasterKey :: "8 word list"
  GenerateNonce :: "rng_state \<Rightarrow> 8 word list \<Rightarrow> nat \<Rightarrow> 8 word list"

definition TranslateAuthorizationSetError :: "AuthorizationSet_Error \<Rightarrow> keymaster_error_t" where
  "TranslateAuthorizationSetError err =
     (case err of
        OK \<Rightarrow> KM_ERROR_OK
      | ALLOCATION_FAILURE \<Rightarrow> KM_ERROR_MEMORY_ALLOCATION_FAILED
      | MALFORMED_DATA \<Rightarrow> KM_ERROR_UNKNOWN_ERROR)"

definition AddAuthorization ::
  "keymaster_impl \<Rightarrow> keymaster_key_param_t \<Rightarrow> AuthorizationSet \<times> AuthorizationSet
     \<Rightarrow> AuthorizationSet \<times> AuthorizationSet" where
  "AddAuthorization impl auth sets =
     (case sets of (enforced, unenforced) \<Rightarrow>
        if is_enforced impl (tag auth) then (push_back enforced auth, unenforced)
        else (enforced, push_back unenforced auth))"

text \<open>
  The loop of \<open>SetAuthorizations\<close> over the entries of the key description, with the pair
  (enforced, unenforced) built so far. \<open>Some\<close> is the error of an early \<open>return\<close>.
\<close>

fun SetAuthorizations_loop ::
  "keymaster_impl \<Rightarrow> AuthorizationSet \<Rightarrow> AuthorizationSet \<times> AuthorizationSet
     \<Rightarrow> keymaster_error_t option \<times> AuthorizationSet \<times> AuthorizationSet" where
  "SetAuthorizations_loop impl [] sets = (None, sets)"
| "SetAuthorizations_loop impl (p # ps) sets =
     (if tag p = KM_TAG_ROOT_OF_TRUST \<or> tag p = KM_TAG_ORIGIN
        then (Some KM_ERROR_INVALID_TAG, sets)
      else if tag p = KM_TAG_ROLLBACK_RESISTANT
        then (Some KM_ERROR_UNSUPPORTED_TAG, sets)
      else if tag p = KM_TAG_APPLICATION_ID \<or> tag p = KM_TAG_APPLICATION_DATA
        then SetAuthorizations_loop impl ps sets
      else SetAuthorizations_loop impl ps (AddAuthorization impl p sets))"

text \<open>
  \<open>SetAuthorizations\<close>: the result is the returned error with the two output sets as the
  call leaves them. \<open>creation_datetime\<close> is the value of \<open>java_time(time(NULL))\<close>.
\<close>

definition SetAuthorizations ::
  "keymaster_impl \<Rightarrow> 64 word \<Rightarrow> AuthorizationSet \<Rightarrow> keymaster_key_origin_t
     \<Rightarrow> keymaster_error_t \<times> AuthorizationSet \<times> AuthorizationSet" where
  "SetAuthorizations impl creation_datetime key_description origin' =
     (case SetAuthorizations_loop impl key_description ([], []) of
        (Some err, sets) \<Rightarrow> (err, sets)
      | (None, sets) \<Rightarrow>
          (let sets1 = AddAuthorization impl
                         (Authorization KM_TAG_CREATION_DATETIME (Date_time creation_datetime)) sets;
               (enforced, unenforced) =
                  AddAuthorization impl (Authorization KM_TAG_ORIGIN (Origin origin')) sets1
           in if is_valid enforced \<noteq> OK
                then (TranslateAuthorizationSetError (is_valid enforced), enforced, unenforced)
              else (TranslateAuthorizationSetError (is_valid unenforced), enforced, unenforced)))"

definition BuildHiddenAuthorizations ::
  "keymaster_impl \<Rightarrow> AuthorizationSet \<Rightarrow> AuthorizationSet
     \<Rightarrow> keymaster_error_t \<times> AuthorizationSet" where
  "BuildHiddenAuthorizations impl input_set hidden =
     (let hidden1 = (case GetTagValue_blob input_set KM_TAG_APPLICATION_ID of
                       Some entry \<Rightarrow> push_back hidden (Authorization KM_TAG_APPLICATION_ID (Blob entry))
                     | None \<Rightarrow> hidden);
          hidden2 = (case GetTagValue_blob input_set KM_TAG_APPLICATION_DATA of
                       Some entry \<Rightarrow> push_back hidden1 (Authorization KM_TAG_APPLICATION_DATA (Blob entry))
                     | None \<Rightarrow> hidden1);
          hidden3 = push_back hidden2 (RootOfTrustTag impl)
      in (TranslateAuthorizationSetError (is_valid hidden3), hidden3))"

section \<open>The software implementation\<close>

text \<open>
  \<open>AndroidSoftKeymaster::GenerateNonce\<close>: the loop \<open>for (i = 0; i < length; ++i) nonce[i] = 0\<close>
  on the buffer.
\<close>

definition AndroidSoftKeymaster_GenerateNonce :: "8 word list \<Rightarrow> nat \<Rightarrow> 8 word list" where
  "AndroidSoftKeymaster_GenerateNonce nonce length' =
     fold (\<lambda>i buf. buf[i := 0]) [0..<length'] nonce"

definition AndroidSoftKeymaster_master_key :: "8 word list" where
  "AndroidSoftKeymaster_master_key = [0, 0, 0, 0, 0, 0, 0, 0, 0, 0, 0, 0, 0, 0, 0, 0]"

text \<open>
  Modelled from the spec: \<open>origin()\<close> of the software implementation, whose definition is
  not among the sources; generated keys have origin \<open>SOFTWARE\<close>.
\<close>

definition AndroidSoftKeymaster :: keymaster_impl where
  "AndroidSoftKeymaster =
     \<lparr>is_enforced = (\<lambda>t. False),
      origin = KM_ORIGIN_SOFTWARE,
      RootOfTrustTag = Authorization KM_TAG_ROOT_OF_TRUST (Blob [0x53, 0x57]),
      MasterKey = AndroidSoftKeymaster_master_key,
      GenerateNonce = (\<lambda>rng. AndroidSoftKeymaster_GenerateNonce)\<rparr>"

text \<open>The tags that a client may not supply, and the tags that are hidden.\<close>

definition rejected_tag :: "keymaster_key_param_t \<Rightarrow> bool" where
  "rejected_tag p =
     (tag p = KM_TAG_ROOT_OF_TRUST \<or> tag p = KM_TAG_ORIGIN \<or> tag p = KM_TAG_ROLLBACK_RESISTANT)"

definition hidden_tag :: "keymaster_key_param_t \<Rightarrow> bool" where
  "hidden_tag p = (tag p = KM_TAG_APPLICATION_ID \<or> tag p = KM_TAG_APPLICATION_DATA)"

section \<open>Sealing a key and the entry points for new keys\<close>

text \<open>
  Modelled from the spec: \<open>KeyBlob::NONCE_LENGTH\<close>, declared in \<open>key_blob.h\<close>, which is not
  among the sources; the spec gives the nonce of a key blob as 12 bytes.
\<close>

definition NONCE_LENGTH :: nat where
  "NONCE_LENGTH = 12"

text \<open>
  The collaborators of \<open>SerializeKey\<close> that are not among the sources, as parameters:
  \<open>key_material\<close> of the key, the constructor of \<open>UnencryptedKeyBlob\<close>, which seals the key
  material under the master key and the nonce (\<open>None\<close> when \<open>new\<close> fails), and the allocation
  of the output bytes. Of a blob the code reads \<open>error()\<close> and what \<open>Serialize\<close> writes.
\<close>

record KeyBlob =
  blob_error :: keymaster_error_t
  blob_serialized :: "8 word list"

record 'k keymaster_env =
  key_material :: "'k Key \<Rightarrow> keymaster_error_t + 8 word list"
  new_UnencryptedKeyBlob ::
    "AuthorizationSet \<Rightarrow> AuthorizationSet \<Rightarrow> AuthorizationSet \<Rightarrow> 8 word list \<Rightarrow> 8 word list
       \<Rightarrow> 8 word list \<Rightarrow> KeyBlob option"
  new_blob_bytes_ok :: bool

text \<open>
  \<open>SerializeKey\<close>. The result is the returned error, the bytes of the key blob when one
  was written, and the output sets \<open>enforced\<close> and \<open>unenforced\<close>. \<open>uninit\<close> is the content of
  the local array \<open>nonce\<close> before \<open>GenerateNonce\<close> fills it.
\<close>

definition SerializeKey ::
  "keymaster_impl \<Rightarrow> 'k keymaster_env \<Rightarrow> 64 word \<Rightarrow> rng_state \<Rightarrow> (nat \<Rightarrow> 8 word) \<Rightarrow> 'k Key
     \<Rightarrow> keymaster_key_origin_t
     \<Rightarrow> keymaster_error_t \<times> 8 word list option \<times> AuthorizationSet \<times> AuthorizationSet" where
  "SerializeKey impl env creation_datetime rng uninit key origin' =
     (case SetAuthorizations impl creation_datetime (authorizations key) origin' of
        (error, enforced, unenforced) \<Rightarrow>
          if error \<noteq> KM_ERROR_OK then (error, None, enforced, unenforced)
          else
            (case BuildHiddenAuthorizations impl (authorizations key) [] of
               (error, hidden_auths) \<Rightarrow>
                 if error \<noteq> KM_ERROR_OK then (error, None, enforced, unenforced)
                 else
                   (case key_material env key of
                      Inl error \<Rightarrow> (error, None, enforced, unenforced)
                    | Inr material \<Rightarrow>
                        (let nonce = GenerateNonce impl rng (map uninit [0..<NONCE_LENGTH])
                                       NONCE_LENGTH;
                             master_key = MasterKey impl
                         in case new_UnencryptedKeyBlob env enforced unenforced hidden_auths
                                   material master_key nonce of
                              None \<Rightarrow>
                                (KM_ERROR_MEMORY_ALLOCATION_FAILED, None, enforced, unenforced)
                            | Some blob \<Rightarrow>
                                if blob_error blob \<noteq> KM_ERROR_OK
                                  then (blob_error blob, None, enforced, unenforced)
                                else if \<not> new_blob_bytes_ok env
                                  then (KM_ERROR_MEMORY_ALLOCATION_FAILED, None, enforced, unenforced)
                                else (KM_ERROR_OK, Some (blob_serialized blob),
                                      enforced, unenforced)))))"

text \<open>
  A key factory of the registry, and the responses of \<open>GenerateKey\<close> and \<open>ImportKey\<close>. A
  response starts with empty sets and no blob.
\<close>

record 'k KeyFactory =
  factory_GenerateKey :: "AuthorizationSet \<Rightarrow> keymaster_error_t + 'k Key"
  factory_ImportKey :: "AuthorizationSet \<Rightarrow> 32 word \<Rightarrow> 8 word list \<Rightarrow> keymaster_error_t + 'k Key"

record GenerateKeyResponse =
  rsp_error :: keymaster_error_t
  rsp_key_blob :: "8 word list option"
  rsp_enforced :: AuthorizationSet
  rsp_unenforced :: AuthorizationSet

definition KeyFactoryRegistry_Get ::
  "(keymaster_algorithm_t \<Rightarrow> 'k KeyFactory option) \<Rightarrow> AuthorizationSet \<Rightarrow> 'k KeyFactory option" where
  "KeyFactoryRegistry_Get registry key_description =
     (case GetTagValue_algorithm key_description KM_TAG_ALGORITHM of
        None \<Rightarrow> None
      | Some algorithm \<Rightarrow> registry algorithm)"

definition GenerateKey ::
  "keymaster_impl \<Rightarrow> 'k keymaster_env \<Rightarrow> (keymaster_algorithm_t \<Rightarrow> 'k KeyFactory option)
     \<Rightarrow> 64 word \<Rightarrow> rng_state \<Rightarrow> (nat \<Rightarrow> 8 word) \<Rightarrow> AuthorizationSet \<Rightarrow> GenerateKeyResponse" where
  "GenerateKey impl env registry creation_datetime rng uninit key_description =
     (case KeyFactoryRegistry_Get registry key_description of
        None \<Rightarrow> \<lparr>rsp_error = KM_ERROR_UNSUPPORTED_ALGORITHM, rsp_key_blob = None,
                 rsp_enforced = [], rsp_unenforced = []\<rparr>
      | Some factory \<Rightarrow>
          (case factory_GenerateKey factory key_description of
             Inl error \<Rightarrow> \<lparr>rsp_error = error, rsp_key_blob = None,
                           rsp_enforced = [], rsp_unenforced = []\<rparr>
           | Inr key \<Rightarrow>
               (case SerializeKey impl env creation_datetime rng uninit key (origin impl) of
                  (error, blob, enforced, unenforced) \<Rightarrow>
                    \<lparr>rsp_error = error, rsp_key_blob = blob,
                     rsp_enforced = enforced, rsp_unenforced = unenforced\<rparr>)))"

definition ImportKey ::
  "keymaster_impl \<Rightarrow> 'k keymaster_env \<Rightarrow> (keymaster_algorithm_t \<Rightarrow> 'k KeyFactory option)
     \<Rightarrow> 64 word \<Rightarrow> rng_state \<Rightarrow> (nat \<Rightarrow> 8 word) \<Rightarrow> AuthorizationSet \<Rightarrow> 32 word \<Rightarrow> 8 word list
     \<Rightarrow> GenerateKeyResponse" where
  "ImportKey impl env registry creation_datetime rng uninit key_description key_format key_data =
     (case KeyFactoryRegistry_Get registry key_description of
        None \<Rightarrow> \<lparr>rsp_error = KM_ERROR_UNSUPPORTED_ALGORITHM, rsp_key_blob = None,
                 rsp_enforced = [], rsp_unenforced = []\<rparr>
      | Some factory \<Rightarrow>
          (case factory_ImportKey factory key_description key_format key_data of
             Inl error \<Rightarrow> \<lparr>rsp_error = error, rsp_key_blob = None,
                           rsp_enforced = [], rsp_unenforced = []\<rparr>
           | Inr key \<Rightarrow>
               (case SerializeKey impl env creation_datetime rng uninit key KM_ORIGIN_IMPORTED of
                  (error, blob, enforced, unenforced) \<Rightarrow>
                    \<lparr>rsp_error = error, rsp_key_blob = blob,
                     rsp_enforced = enforced, rsp_unenforced = unenforced\<rparr>)))"

text \<open>An environment for the examples: the blob is the nonce followed by the key material.\<close>

definition example_env :: "'k keymaster_env" where
  "example_env =
     \<lparr>key_material = (\<lambda>k. Inr [1, 2, 3]),
      new_UnencryptedKeyBlob =
        (\<lambda>enforced unenforced hidden_auths material master_key nonce.
           Some \<lparr>blob_error = KM_ERROR_OK, blob_serialized = nonce @ material\<rparr>),
      new_blob_bytes_ok = True\<rparr>"

section \<open>The operation table\<close>

text \<open>
  One row of the operation table: the handle and the pointer to the operation, \<open>None\<close>
  for \<open>NULL\<close>. The table is an array of fixed size. \<open>'op\<close> is the state of an operation
  object.
\<close>

record 'op OpTableEntry =
  handle :: "64 word"
  operation :: "'op option"

text \<open>
  Modelled from the spec: the constructor of \<open>OpTableEntry\<close>, which the class declaration
  of this version holds and which is not among the sources; an empty slot has handle 0
  and no operation. The constructor of \<open>GoogleKeymaster\<close> allocates
  \<open>operation_table_size\<close> such entries.
\<close>

definition new_operation_table :: "nat \<Rightarrow> 'op OpTableEntry list" where
  "new_operation_table operation_table_size =
     replicate operation_table_size \<lparr>handle = 0, operation = None\<rparr>"

text \<open>
  The loop of \<open>AddOperation\<close>: the first entry without an operation takes the operation
  and the handle; \<open>None\<close> when the loop ends without finding one.
\<close>

fun AddOperation_loop ::
  "'op OpTableEntry list \<Rightarrow> 'op \<Rightarrow> 64 word \<Rightarrow> 'op OpTableEntry list option" where
  "AddOperation_loop [] op' op_handle = None"
| "AddOperation_loop (e # es) op' op_handle =
     (if operation e = None then Some (\<lparr>handle = op_handle, operation = Some op'\<rparr> # es)
      else map_option ((#) e) (AddOperation_loop es op' op_handle))"

text \<open>
  \<open>AddOperation\<close>. \<open>RAND_bytes\<close> fills the eight bytes of \<open>*op_handle\<close>: \<open>rand_ret\<close> is the
  value it returns and \<open>drawn\<close> the content of \<open>*op_handle\<close> after the call. The result is
  the returned error, the table and \<open>*op_handle\<close>.
\<close>

definition AddOperation ::
  "'op OpTableEntry list \<Rightarrow> 'op \<Rightarrow> int \<Rightarrow> 64 word
     \<Rightarrow> keymaster_error_t \<times> 'op OpTableEntry list \<times> 64 word" where
  "AddOperation operation_table op' rand_ret drawn =
     (if rand_ret = 0 then (KM_ERROR_UNKNOWN_ERROR, operation_table, drawn)
      else if drawn = 0 then (KM_ERROR_UNKNOWN_ERROR, operation_table, drawn)
      else (case AddOperation_loop operation_table op' drawn of
              Some table' \<Rightarrow> (KM_ERROR_OK, table', drawn)
            | None \<Rightarrow> (KM_ERROR_TOO_MANY_OPERATIONS, operation_table, drawn)))"

text \<open>
  \<open>FindOperation\<close> returns a pointer to the first entry with the handle, here its index,
  and \<open>NULL\<close> for handle 0 without looking at the table.
\<close>

fun FindOperation_loop :: "'op OpTableEntry list \<Rightarrow> 64 word \<Rightarrow> nat option" where
  "FindOperation_loop [] op_handle = None"
| "FindOperation_loop (e # es) op_handle =
     (if handle e = op_handle then Some 0
      else map_option Suc (FindOperation_loop es op_handle))"

definition FindOperation :: "'op OpTableEntry list \<Rightarrow> 64 word \<Rightarrow> nat option" where
  "FindOperation operation_table op_handle =
     (if op_handle = 0 then None else FindOperation_loop operation_table op_handle)"

definition DeleteOperation :: "'op OpTableEntry list \<Rightarrow> nat \<Rightarrow> 'op OpTableEntry list" where
  "DeleteOperation operation_table i = operation_table[i := \<lparr>handle = 0, operation = None\<rparr>]"

text \<open>
  \<open>UpdateOperation\<close>, \<open>FinishOperation\<close> and \<open>AbortOperation\<close>. The virtual method of the
  operation, applied to the arguments of the request, is the first parameter: \<open>Update\<close>
  returns an error and changes the operation, \<open>Finish\<close> and \<open>Abort\<close> return an error and
  the operation is deleted after them. The result is the error of the response and
  the table; it is \<open>None\<close> when the code dereferences the \<open>NULL\<close> operation of the entry
  that \<open>FindOperation\<close> returned.
\<close>

definition UpdateOperation ::
  "('op \<Rightarrow> keymaster_error_t \<times> 'op) \<Rightarrow> 'op OpTableEntry list \<Rightarrow> 64 word
     \<Rightarrow> (keymaster_error_t \<times> 'op OpTableEntry list) option" where
  "UpdateOperation Update operation_table op_handle =
     (case FindOperation operation_table op_handle of
        None \<Rightarrow> Some (KM_ERROR_INVALID_OPERATION_HANDLE, operation_table)
      | Some i \<Rightarrow>
          (case operation (operation_table ! i) of
             None \<Rightarrow> None
           | Some op' \<Rightarrow>
               (let (error, op'') = Update op';
                    table' = operation_table[i := (operation_table ! i)\<lparr>operation := Some op''\<rparr>]
                in if error \<noteq> KM_ERROR_OK then Some (error, DeleteOperation table' i)
                   else Some (error, table'))))"

definition FinishOperation ::
  "('op \<Rightarrow> keymaster_error_t) \<Rightarrow> 'op OpTableEntry list \<Rightarrow> 64 word
     \<Rightarrow> (keymaster_error_t \<times> 'op OpTableEntry list) option" where
  "FinishOperation Finish operation_table op_handle =
     (case FindOperation operation_table op_handle of
        None \<Rightarrow> Some (KM_ERROR_INVALID_OPERATION_HANDLE, operation_table)
      | Some i \<Rightarrow>
          (case operation (operation_table ! i) of
             None \<Rightarrow> None
           | Some op' \<Rightarrow> Some (Finish op', DeleteOperation operation_table i)))"

definition AbortOperation ::
  "('op \<Rightarrow> keymaster_error_t) \<Rightarrow> 'op OpTableEntry list \<Rightarrow> 64 word
     \<Rightarrow> (keymaster_error_t \<times> 'op OpTableEntry list) option" where
  "AbortOperation Abort operation_table op_handle =
     (case FindOperation operation_table op_handle of
        None \<Rightarrow> Some (KM_ERROR_INVALID_OPERATION_HANDLE, operation_table)
      | Some i \<Rightarrow>
          (case operation (operation_table ! i) of
             None \<Rightarrow> None
           | Some op' \<Rightarrow>
               (let error = Abort op'; table' = DeleteOperation operation_table i
                in if error \<noteq> KM_ERROR_OK then Some (error, table')
                   else Some (KM_ERROR_OK, table'))))"

text \<open>
  The calls that change the table, and a session as the list of its calls. \<open>run\<close> is
  the table after the session, \<open>None\<close> when a call dereferenced \<open>NULL\<close>.
\<close>

datatype 'op table_call =
    Add 'op int "64 word"
  | Update "'op \<Rightarrow> keymaster_error_t \<times> 'op" "64 word"
  | Finish "'op \<Rightarrow> keymaster_error_t" "64 word"
  | Abort "'op \<Rightarrow> keymaster_error_t" "64 word"

fun call :: "'op OpTableEntry list \<Rightarrow> 'op table_call
               \<Rightarrow> (keymaster_error_t \<times> 'op OpTableEntry list) option" where
  "call t (Add op' rand_ret drawn) =
     (case AddOperation t op' rand_ret drawn of (error, t', h) \<Rightarrow> Some (error, t'))"
| "call t (Update f h) = UpdateOperation f t h"
| "call t (Finish f h) = FinishOperation f t h"
| "call t (Abort f h) = AbortOperation f t h"

fun run :: "'op OpTableEntry list \<Rightarrow> 'op table_call list \<Rightarrow> 'op OpTableEntry list option" where
  "run t [] = Some t"
| "run t (c # cs) = (case call t c of None \<Rightarrow> None | Some (error, t') \<Rightarrow> run t' cs)"

text \<open>The invariant of the table: a slot is empty exactly when its handle is 0.\<close>

definition table_inv :: "'op OpTableEntry list \<Rightarrow> bool" where
  "table_inv t = list_all (\<lambda>e. (operation e = None) = (handle e = 0)) t"

text \<open>The slots that hold a handle, and the calls that are not an \<open>Add\<close> drawing it.\<close>

definition slots_holding :: "'op OpTableEntry list \<Rightarrow> 64 word \<Rightarrow> nat" where
  "slots_holding t h = length (filter (\<lambda>e. handle e = h) t)"

fun draws :: "64 word \<Rightarrow> 'op table_call \<Rightarrow> bool" where
  "draws h (Add op' rand_ret drawn) = (drawn = h)"
| "draws h _ = False"

section \<open>HMAC operations\<close>

text \<open>
  The digests of OpenSSL that the constructor of \<open>HmacOperation\<close> selects, with the size
  of their output in bytes (\<open>EVP_MD_size\<close>), which is the length that \<open>HMAC_Final\<close> reports.
\<close>

datatype EVP_MD = EVP_sha1 | EVP_sha224 | EVP_sha256 | EVP_sha384 | EVP_sha512

fun EVP_MD_size :: "EVP_MD \<Rightarrow> nat" where
  "EVP_MD_size EVP_sha1 = 20"
| "EVP_MD_size EVP_sha224 = 28"
| "EVP_MD_size EVP_sha256 = 32"
| "EVP_MD_size EVP_sha384 = 48"
| "EVP_MD_size EVP_sha512 = 64"

text \<open>
  The state of an \<open>HmacOperation\<close>: purpose, \<open>error_\<close> and \<open>tag_length_\<close> (in bytes; the
  fields \<open>hmac_error\<close> and \<open>hmac_tag_length\<close>) and the HMAC
  context, which is the digest (none while \<open>md\<close> is \<open>nullptr\<close>), the key and the data fed so
  far.
\<close>

record HmacOperation =
  hmac_purpose :: keymaster_purpose_t
  hmac_error :: keymaster_error_t
  hmac_tag_length :: nat
  ctx_md :: "EVP_MD option"
  ctx_key :: "8 word list"
  ctx_data :: "8 word list"

text \<open>The \<open>switch\<close> of the constructor over the digest.\<close>

fun hmac_md :: "keymaster_digest_t \<Rightarrow> EVP_MD option" where
  "hmac_md KM_DIGEST_NONE = None"
| "hmac_md KM_DIGEST_MD5 = None"
| "hmac_md KM_DIGEST_SHA1 = Some EVP_sha1"
| "hmac_md KM_DIGEST_SHA_2_224 = Some EVP_sha224"
| "hmac_md KM_DIGEST_SHA_2_256 = Some EVP_sha256"
| "hmac_md KM_DIGEST_SHA_2_384 = Some EVP_sha384"
| "hmac_md KM_DIGEST_SHA_2_512 = Some EVP_sha512"

definition new_HmacOperation ::
  "keymaster_purpose_t \<Rightarrow> 8 word list \<Rightarrow> keymaster_digest_t \<Rightarrow> nat \<Rightarrow> HmacOperation" where
  "new_HmacOperation purpose key_data digest tag_length =
     \<lparr>hmac_purpose = purpose,
      hmac_error = (if hmac_md digest = None then KM_ERROR_UNSUPPORTED_DIGEST else KM_ERROR_OK),
      hmac_tag_length = tag_length,
      ctx_md = hmac_md digest,
      ctx_key = key_data,
      ctx_data = []\<rparr>"

text \<open>
  \<open>HmacOperationFactory::CreateOperation\<close>. The key is a \<open>SymmetricKey\<close>, its handle the key
  bytes. \<open>new_ok\<close> says whether \<open>new HmacOperation\<close> succeeded. \<open>Inl\<close> is the error of a
  \<open>nullptr\<close> return.
\<close>

definition HmacOperationFactory_CreateOperation ::
  "bool \<Rightarrow> keymaster_purpose_t \<Rightarrow> (8 word list) Key \<Rightarrow> AuthorizationSet
     \<Rightarrow> keymaster_error_t + HmacOperation" where
  "HmacOperationFactory_CreateOperation new_ok purpose key begin_params =
     (let tag_length = (case GetTagValue_int begin_params KM_TAG_MAC_LENGTH of
                          Some v \<Rightarrow> v | None \<Rightarrow> 0)
      in if unat tag_length mod 8 \<noteq> 0 then Inl KM_ERROR_UNSUPPORTED_MAC_LENGTH
         else
           (let digest = (case GetTagValue_digest (authorizations key) KM_TAG_DIGEST of
                            Some d \<Rightarrow> d | None \<Rightarrow> KM_DIGEST_NONE);
                op' = new_HmacOperation purpose (key_handle key) digest (unat tag_length div 8);
                error = (if \<not> new_ok then KM_ERROR_MEMORY_ALLOCATION_FAILED else hmac_error op')
            in if error \<noteq> KM_ERROR_OK then Inl error else Inr op'))"

definition HmacOperation_Begin :: "HmacOperation \<Rightarrow> keymaster_error_t" where
  "HmacOperation_Begin op' = hmac_error op'"

text \<open>
  The OpenSSL calls of \<open>Update\<close> and \<open>Finish\<close>: whether \<open>HMAC_Update\<close> succeeds, the MAC that
  \<open>HMAC_Final\<close> computes for a digest, a key and the data (none when it fails), the error
  that \<open>TranslateLastOpenSslError\<close> gives after a failure, and whether the output buffer
  could be reserved and written.
\<close>

record hmac_backend =
  HMAC_Update_ok :: bool
  HMAC_Final :: "EVP_MD \<Rightarrow> 8 word list \<Rightarrow> 8 word list \<Rightarrow> 8 word list option"
  TranslateLastOpenSslError :: keymaster_error_t
  output_write_ok :: bool

definition HmacOperation_Update ::
  "hmac_backend \<Rightarrow> HmacOperation \<Rightarrow> 8 word list \<Rightarrow> keymaster_error_t \<times> HmacOperation" where
  "HmacOperation_Update env op' input =
     (if \<not> HMAC_Update_ok env then (TranslateLastOpenSslError env, op')
      else (KM_ERROR_OK, op'\<lparr>ctx_data := ctx_data op' @ input\<rparr>))"

text \<open>\<open>HmacOperation::Finish\<close>: the returned error and the bytes written to the output.\<close>

definition HmacOperation_Finish ::
  "hmac_backend \<Rightarrow> HmacOperation \<Rightarrow> 8 word list \<Rightarrow> keymaster_error_t \<times> 8 word list" where
  "HmacOperation_Finish env op' signature =
     (case (case ctx_md op' of
              None \<Rightarrow> None
            | Some md \<Rightarrow> HMAC_Final env md (ctx_key op') (ctx_data op')) of
        None \<Rightarrow> (TranslateLastOpenSslError env, [])
      | Some digest \<Rightarrow>
          (let digest_len = length digest
           in case hmac_purpose op' of
                KM_PURPOSE_SIGN \<Rightarrow>
                  if hmac_tag_length op' > digest_len then (KM_ERROR_UNSUPPORTED_MAC_LENGTH, [])
                  else if \<not> output_write_ok env then (KM_ERROR_MEMORY_ALLOCATION_FAILED, [])
                  else (KM_ERROR_OK, take (hmac_tag_length op') digest)
              | KM_PURPOSE_VERIFY \<Rightarrow>
                  if length signature > digest_len then (KM_ERROR_INVALID_INPUT_LENGTH, [])
                  else if take (length signature) digest \<noteq> signature
                    then (KM_ERROR_VERIFICATION_FAILED, [])
                  else (KM_ERROR_OK, [])
              | _ \<Rightarrow> (KM_ERROR_UNSUPPORTED_PURPOSE, [])))"

text \<open>
  The value of \<open>tag_length\<close> after \<open>begin_params.GetTagValue(TAG_MAC_LENGTH, &tag_length)\<close>,
  in bits (the variable is initialised with 0, which an absent tag leaves in place),
  and the digest that \<open>CreateOperation\<close> reads from the key.
\<close>

definition mac_length_bits :: "AuthorizationSet \<Rightarrow> nat" where
  "mac_length_bits begin_params =
     (case GetTagValue_int begin_params KM_TAG_MAC_LENGTH of Some v \<Rightarrow> unat v | None \<Rightarrow> 0)"

definition key_digest :: "(8 word list) Key \<Rightarrow> keymaster_digest_t" where
  "key_digest key =
     (case GetTagValue_digest (authorizations key) KM_TAG_DIGEST of
        Some d \<Rightarrow> d | None \<Rightarrow> KM_DIGEST_NONE)"

text \<open>An HMAC key of 128 bits for SHA-256, and a backend for the examples.\<close>

definition hmac_sha256_key :: "(8 word list) Key" where
  "hmac_sha256_key =
     \<lparr>key_handle = replicate 16 0x0b,
      authorizations = [Authorization KM_TAG_ALGORITHM (Algorithm KM_ALGORITHM_HMAC),
                        Authorization KM_TAG_DIGEST (Digest KM_DIGEST_SHA_2_256)]\<rparr>"

definition example_hmac_backend :: hmac_backend where
  "example_hmac_backend =
     \<lparr>HMAC_Update_ok = True,
      HMAC_Final = (\<lambda>md key_data data. Some (replicate (EVP_MD_size md) 0x5c)),
      TranslateLastOpenSslError = KM_ERROR_UNKNOWN_ERROR,
      output_write_ok = True\<rparr>"

section \<open>Properties: message versions\<close>

subsection \<open>The composite version determines its three bytes\<close>

lemma composite_ver_low:
  "ucast (push_bit 16 (ucast a :: 32 word) OR push_bit 8 (ucast b) OR (ucast c :: 32 word))
     = (c :: 8 word)"
  for a b :: "8 word"
  by (rule bit_word_eqI) (auto simp add: bit_simps)

lemma composite_ver_mid:
  "ucast (drop_bit 8 (push_bit 16 (ucast a :: 32 word) OR push_bit 8 (ucast b)
                        OR (ucast c :: 32 word))) = (b :: 8 word)"
  for a c :: "8 word"
  by (rule bit_word_eqI) (auto simp add: bit_simps dest: bit_imp_le_length)

lemma composite_ver_high:
  "ucast (drop_bit 16 (push_bit 16 (ucast a :: 32 word) OR push_bit 8 (ucast b)
                         OR (ucast c :: 32 word))) = (a :: 8 word)"
  for b c :: "8 word"
  by (rule bit_word_eqI) (auto simp add: bit_simps dest: bit_imp_le_length)

lemma composite_ver_eq_iff:
  fixes a b c a' b' c' :: "8 word"
  shows "(push_bit 16 (ucast a :: 32 word) OR push_bit 8 (ucast b) OR (ucast c :: 32 word))
           = (push_bit 16 (ucast a') OR push_bit 8 (ucast b') OR ucast c')
         \<longleftrightarrow> a = a' \<and> b = b' \<and> c = c'"
proof
  assume eq: "(push_bit 16 (ucast a :: 32 word) OR push_bit 8 (ucast b) OR (ucast c :: 32 word))
           = (push_bit 16 (ucast a') OR push_bit 8 (ucast b') OR ucast c')"
  have "a = a'"
    using arg_cong [OF eq, of "\<lambda>w. (ucast (drop_bit 16 w) :: 8 word)"]
    by (simp only: composite_ver_high)
  moreover have "b = b'"
    using arg_cong [OF eq, of "\<lambda>w. (ucast (drop_bit 8 w) :: 8 word)"]
    by (simp only: composite_ver_mid)
  moreover have "c = c'"
    using arg_cong [OF eq, of "\<lambda>w. (ucast w :: 8 word)"]
    by (simp only: composite_ver_low)
  ultimately show "a = a' \<and> b = b' \<and> c = c'" by simp
qed simp

lemma MessageVersion_cases:
  "MessageVersion a b c =
     (if a = 0 \<and> b = 0 \<and> c = 0 then 0 else if a = 0 \<and> b = 1 \<and> c = 0 then 1 else - 1)"
proof -
  let ?w = "push_bit 16 (ucast a :: 32 word) OR push_bit 8 (ucast b) OR (ucast c :: 32 word)"
  have z: "?w = 0 \<longleftrightarrow> a = 0 \<and> b = 0 \<and> c = 0"
    using composite_ver_eq_iff [of a b c 0 0 0] by simp
  have o: "?w = 0x100 \<longleftrightarrow> a = 0 \<and> b = 1 \<and> c = 0"
    using composite_ver_eq_iff [of a b c 0 1 0] by simp
  show ?thesis
    unfolding MessageVersion_def Let_def using z o by auto
qed

text \<open>
  C2. The claim: \<open>MessageVersion\<close> returns 0 for version 0.0.0, 1 for version 1.0.0 and -1
  for every other triple. The code maps version 1.0.0, the version this implementation
  reports, to -1: its composite value is \<open>0x10000\<close>, while the \<open>switch\<close> tests \<open>0x100\<close>,
  which is the composite value of version 0.1.0.
\<close>

theorem MessageVersion_1_0_0:
  "MessageVersion MAJOR_VER MINOR_VER SUBMINOR_VER = - 1
   \<and> MessageVersion 1 0 0 = - 1 \<and> MessageVersion 0 1 0 = 1 \<and> MessageVersion 0 0 0 = 0"
  by (simp add: MessageVersion_def MAJOR_VER_def MINOR_VER_def SUBMINOR_VER_def)

section \<open>Properties: RSA keys\<close>

lemmas GetTagValue_defs =
  GetTagValue_def GetTagValue_int_def GetTagValue_long_def GetTagValue_algorithm_def
  GetTagValue_digest_def GetTagValue_blob_def push_back_def

lemma GetTagValue_append:
  "GetTagValue (s @ s') t = (case GetTagValue s t of None \<Rightarrow> GetTagValue s' t | Some v \<Rightarrow> Some v)"
  by (induction s) (simp_all add: GetTagValue_def)

text \<open>A generated key gets the defaults for the tags that are absent.\<close>

lemma RsaKey_GenerateKey_defaults:
  assumes "RSA_new_ok env" and "RSA_EVP_PKEY_new_ok env" and "BN_set_word_ok env"
    and "new_RsaKey_ok env"
    and "GetTagValue_long D KM_TAG_RSA_PUBLIC_EXPONENT = None"
    and "GetTagValue_int D KM_TAG_KEY_SIZE = None"
    and "RSA_generate_key_ex env 2048 65537 = Some r"
  shows "RsaKey_GenerateKey env D =
           Inr \<lparr>key_handle = r,
                authorizations = D @ [Authorization KM_TAG_RSA_PUBLIC_EXPONENT (Long_integer 65537),
                                      Authorization KM_TAG_KEY_SIZE (Integer 2048)]\<rparr>"
proof -
  from assms(6) have "GetTagValue_int (D @ [Authorization KM_TAG_RSA_PUBLIC_EXPONENT
                        (Long_integer 65537)]) KM_TAG_KEY_SIZE = None"
    by (simp add: GetTagValue_int_def GetTagValue_append)
       (simp add: GetTagValue_def split: option.splits)
  with assms show ?thesis
    by (simp add: RsaKey_GenerateKey_def RSA_DEFAULT_EXPONENT_def RSA_DEFAULT_KEY_SIZE_def
        push_back_def)
qed

text \<open>
  With the exponent settled, a specified \<open>KEY_SIZE\<close> passes the check of the code exactly
  when it equals the size of the modulus in bytes.
\<close>

lemma RsaKey_ImportKey_key_size_check:
  assumes "GetTagValue_long D KM_TAG_RSA_PUBLIC_EXPONENT = Some x" and "unat x = rsa_e r"
    and "GetTagValue_int D KM_TAG_KEY_SIZE = Some k"
  shows "RsaKey_ImportKey True D (EVP_PKEY_RSA r) = Inl KM_ERROR_IMPORT_PARAMETER_MISMATCH
         \<longleftrightarrow> sint k \<noteq> int ((modulus_bits r + 7) div 8)
             \<or> (\<exists>a. GetTagValue_algorithm D KM_TAG_ALGORITHM = Some a \<and> a \<noteq> KM_ALGORITHM_RSA)"
  using assms
  by (auto simp add: RsaKey_ImportKey_def RSA_size_def split: option.splits)

text \<open>
  C1. The claim: on RSA import a present \<open>KEY_SIZE\<close> (or \<open>RSA_PUBLIC_EXPONENT\<close>) gives
  \<open>IMPORT_PARAMETER_MISMATCH\<close> exactly when it differs from the key's modulus size in bits
  (its public exponent), an absent tag is computed from the key and appended, and a
  1024-bit key imported with \<open>KEY_SIZE = 1024\<close> succeeds. The code compares the tag with
  \<open>RSA_size\<close>, which is in bytes: the 1024-bit key with \<open>KEY_SIZE = 1024\<close> is rejected, the
  same key with \<open>KEY_SIZE = 128\<close> is accepted, and with the tag absent the code appends
  \<open>RSA_size * 8 = 1024\<close>.
\<close>

theorem RsaKey_ImportKey_key_size_in_bytes:
  "RsaKey_ImportKey True [Authorization KM_TAG_KEY_SIZE (Integer 1024)] (EVP_PKEY_RSA rsa_1024)
     = Inl KM_ERROR_IMPORT_PARAMETER_MISMATCH
   \<and> RsaKey_ImportKey True [Authorization KM_TAG_KEY_SIZE (Integer 128)] (EVP_PKEY_RSA rsa_1024)
     = Inr \<lparr>key_handle = rsa_1024,
            authorizations =
              [Authorization KM_TAG_KEY_SIZE (Integer 128),
               Authorization KM_TAG_RSA_PUBLIC_EXPONENT (Long_integer 65537),
               Authorization KM_TAG_ALGORITHM (Algorithm KM_ALGORITHM_RSA)]\<rparr>
   \<and> RsaKey_ImportKey True [] (EVP_PKEY_RSA rsa_1024)
     = Inr \<lparr>key_handle = rsa_1024,
            authorizations =
              [Authorization KM_TAG_RSA_PUBLIC_EXPONENT (Long_integer 65537),
               Authorization KM_TAG_KEY_SIZE (Integer 1024),
               Authorization KM_TAG_ALGORITHM (Algorithm KM_ALGORITHM_RSA)]\<rparr>"
  by (simp add: RsaKey_ImportKey_def rsa_1024_def GetTagValue_defs BN_get_word_def RSA_size_def)

section \<open>Properties: ECDSA key generation\<close>

lemma good_ec_backend_ok: "ec_backend_ok good_ec_backend"
  by (simp add: ec_backend_ok_def good_ec_backend_def)

lemma unat_key_size_eq:
  "unat (k :: 32 word) = 192 \<longleftrightarrow> k = 192"
  "unat k = 224 \<longleftrightarrow> k = 224"
  "unat k = 256 \<longleftrightarrow> k = 256"
  "unat k = 384 \<longleftrightarrow> k = 384"
  "unat k = 521 \<longleftrightarrow> k = 521"
  by (simp_all add: word_unat_eq_iff)

lemma EcdsaKeyFactory_choose_group_ok:
  "EC_GROUP_new_ok env \<Longrightarrow>
   EcdsaKeyFactory_choose_group env (unat k) = (if k = 192 then None else named_curve k)"
  by (simp add: EcdsaKeyFactory_choose_group_def EC_GROUP_new_by_curve_name_def named_curve_def
      unat_key_size_eq)

lemma EcdsaKey_choose_group_ok:
  "EC_GROUP_new_ok env \<Longrightarrow> EcdsaKey_choose_group env (unat k) = named_curve k"
  by (simp add: EcdsaKey_choose_group_def EC_GROUP_new_by_curve_name_def named_curve_def
      unat_key_size_eq)

lemma EcdsaKeyFactory_GenerateKey_192:
  "ec_backend_ok env \<Longrightarrow> GetTagValue_int D KM_TAG_KEY_SIZE = Some 192 \<Longrightarrow>
   EcdsaKeyFactory_GenerateKey env D = Inl KM_ERROR_UNSUPPORTED_KEY_SIZE"
  by (simp add: EcdsaKeyFactory_GenerateKey_def EcdsaKeyFactory_choose_group_def ec_backend_ok_def)

text \<open>
  The older variant accepts 192 but also defaults to it: neither variant has both the
  curve for 192 and the default 224.
\<close>

lemma EcdsaKey_GenerateKey_old:
  assumes "ec_backend_ok env"
  shows "(GetTagValue_int D KM_TAG_KEY_SIZE = Some 192 \<longrightarrow>
            EcdsaKey_GenerateKey env D
              = Inr \<lparr>key_handle = NID_X9_62_prime192v1, authorizations = D\<rparr>)
       \<and> (GetTagValue_int D KM_TAG_KEY_SIZE = None \<longrightarrow>
            EcdsaKey_GenerateKey env D
              = Inr \<lparr>key_handle = NID_X9_62_prime192v1,
                     authorizations = D @ [Authorization KM_TAG_KEY_SIZE (Integer 192)]\<rparr>)"
  using assms
  by (simp add: EcdsaKey_GenerateKey_def EcdsaKey_choose_group_def ec_backend_ok_def
      EC_GROUP_new_by_curve_name_def ECDSA_DEFAULT_KEY_SIZE_old_def push_back_def)

text \<open>
  C3, as the claim states it, fails on the key factory: \<open>KEY_SIZE = 192\<close> does not select
  \<open>prime192v1\<close>; generation fails with \<open>UNSUPPORTED_KEY_SIZE\<close> although every backend call
  would succeed.
\<close>

theorem EcdsaKeyFactory_GenerateKey_192_counterexample:
  "ec_backend_ok good_ec_backend
   \<and> named_curve 192 = Some NID_X9_62_prime192v1
   \<and> EcdsaKeyFactory_GenerateKey good_ec_backend [Authorization KM_TAG_KEY_SIZE (Integer 192)]
       = Inl KM_ERROR_UNSUPPORTED_KEY_SIZE"
  by (simp add: EcdsaKeyFactory_GenerateKey_def EcdsaKeyFactory_choose_group_def
      ec_backend_ok_def good_ec_backend_def named_curve_def GetTagValue_defs)

text \<open>
  C3, amended. With a backend whose calls succeed, \<open>EcdsaKeyFactory::GenerateKey\<close> maps the
  \<open>KEY_SIZE\<close> values 224, 256, 384 and 521 to \<open>secp224r1\<close>, \<open>prime256v1\<close>, \<open>secp384r1\<close> and
  \<open>secp521r1\<close> and succeeds with the authorizations unchanged; every other value, 192
  included, fails with \<open>UNSUPPORTED_KEY_SIZE\<close>; and with \<open>KEY_SIZE\<close> absent the default 224
  is used and appended to the authorizations.
\<close>

theorem EcdsaKeyFactory_GenerateKey_sizes:
  assumes "ec_backend_ok env"
  shows "(\<forall>k. GetTagValue_int D KM_TAG_KEY_SIZE = Some k \<longrightarrow>
            EcdsaKeyFactory_GenerateKey env D =
              (if k = 224 then Inr \<lparr>key_handle = NID_secp224r1, authorizations = D\<rparr>
               else if k = 256 then Inr \<lparr>key_handle = NID_X9_62_prime256v1, authorizations = D\<rparr>
               else if k = 384 then Inr \<lparr>key_handle = NID_secp384r1, authorizations = D\<rparr>
               else if k = 521 then Inr \<lparr>key_handle = NID_secp521r1, authorizations = D\<rparr>
               else Inl KM_ERROR_UNSUPPORTED_KEY_SIZE))
       \<and> (GetTagValue_int D KM_TAG_KEY_SIZE = None \<longrightarrow>
            EcdsaKeyFactory_GenerateKey env D
              = Inr \<lparr>key_handle = NID_secp224r1,
                     authorizations = D @ [Authorization KM_TAG_KEY_SIZE (Integer 224)]\<rparr>)"
proof (intro conjI allI impI)
  fix k
  assume k: "GetTagValue_int D KM_TAG_KEY_SIZE = Some k"
  have grp: "EcdsaKeyFactory_choose_group env (unat k) = (if k = 192 then None else named_curve k)"
    using assms by (simp add: EcdsaKeyFactory_choose_group_ok ec_backend_ok_def)
  show "EcdsaKeyFactory_GenerateKey env D =
          (if k = 224 then Inr \<lparr>key_handle = NID_secp224r1, authorizations = D\<rparr>
           else if k = 256 then Inr \<lparr>key_handle = NID_X9_62_prime256v1, authorizations = D\<rparr>
           else if k = 384 then Inr \<lparr>key_handle = NID_secp384r1, authorizations = D\<rparr>
           else if k = 521 then Inr \<lparr>key_handle = NID_secp521r1, authorizations = D\<rparr>
           else Inl KM_ERROR_UNSUPPORTED_KEY_SIZE)"
    using assms k grp
    by (simp add: EcdsaKeyFactory_GenerateKey_def ec_backend_ok_def named_curve_def)
next
  assume "GetTagValue_int D KM_TAG_KEY_SIZE = None"
  then show "EcdsaKeyFactory_GenerateKey env D
      = Inr \<lparr>key_handle = NID_secp224r1,
             authorizations = D @ [Authorization KM_TAG_KEY_SIZE (Integer 224)]\<rparr>"
    using assms
    by (simp add: EcdsaKeyFactory_GenerateKey_def EcdsaKeyFactory_choose_group_def
        ec_backend_ok_def EC_GROUP_new_by_curve_name_def ECDSA_DEFAULT_KEY_SIZE_def push_back_def)
qed

theorem EcdsaKeyFactory_GenerateKey_sizes_witness:
  "ec_backend_ok good_ec_backend
   \<and> EcdsaKeyFactory_GenerateKey good_ec_backend [Authorization KM_TAG_KEY_SIZE (Integer 384)]
       = Inr \<lparr>key_handle = NID_secp384r1,
              authorizations = [Authorization KM_TAG_KEY_SIZE (Integer 384)]\<rparr>
   \<and> EcdsaKeyFactory_GenerateKey good_ec_backend [Authorization KM_TAG_KEY_SIZE (Integer 190)]
       = Inl KM_ERROR_UNSUPPORTED_KEY_SIZE
   \<and> EcdsaKeyFactory_GenerateKey good_ec_backend []
       = Inr \<lparr>key_handle = NID_secp224r1,
              authorizations = [Authorization KM_TAG_KEY_SIZE (Integer 224)]\<rparr>"
  using EcdsaKeyFactory_GenerateKey_sizes [OF good_ec_backend_ok,
          of "[Authorization KM_TAG_KEY_SIZE (Integer 384)]"]
        EcdsaKeyFactory_GenerateKey_sizes [OF good_ec_backend_ok,
          of "[Authorization KM_TAG_KEY_SIZE (Integer 190)]"]
        EcdsaKeyFactory_GenerateKey_sizes [OF good_ec_backend_ok, of "[]"]
  by (simp add: GetTagValue_defs good_ec_backend_ok)

section \<open>Properties: DSA key generation\<close>

lemma DsaKey_GenerateKey_key_size:
  "(case GetTagValue_int D KM_TAG_KEY_SIZE of
      Some k \<Rightarrow> (k, D)
    | None \<Rightarrow> (DSA_DEFAULT_KEY_SIZE,
               push_back D (Authorization KM_TAG_KEY_SIZE (Integer DSA_DEFAULT_KEY_SIZE))))
   = (dsa_key_size D, dsa_with_key_size D)"
  by (simp add: dsa_key_size_def dsa_with_key_size_def DSA_DEFAULT_KEY_SIZE_def push_back_def
      split: option.splits)

lemma DsaKey_GenerateKey_none_present:
  assumes "DSA_new_ok env" and "DSA_EVP_PKEY_new_ok env"
    and "GetTagValue_blob D KM_TAG_DSA_GENERATOR = None"
    and "GetTagValue_blob D KM_TAG_DSA_P = None"
    and "GetTagValue_blob D KM_TAG_DSA_Q = None"
  shows "DsaKey_GenerateKey env D =
     (case DSA_generate_parameters_ex env (dsa_key_size D) of
        None \<Rightarrow> Inl KM_ERROR_INVALID_DSA_PARAMS
      | Some dsa \<Rightarrow>
          if \<not> DSA_generate_key_ok env then Inl KM_ERROR_UNKNOWN_ERROR
          else if new_DsaKey_ok env
            then Inr \<lparr>key_handle = dsa,
                      authorizations = dsa_with_key_size D @
                        [Authorization KM_TAG_DSA_GENERATOR (Blob (convert_bn_to_blob env (dsa_g dsa))),
                         Authorization KM_TAG_DSA_P (Blob (convert_bn_to_blob env (dsa_p dsa))),
                         Authorization KM_TAG_DSA_Q (Blob (convert_bn_to_blob env (dsa_q dsa)))]\<rparr>
          else Inl KM_ERROR_MEMORY_ALLOCATION_FAILED)"
  using assms
  by (simp add: DsaKey_GenerateKey_def GetDsaParamData_def DsaKey_GenerateKey_key_size
      SetDsaParamData_def push_back_def split: option.splits)



lemma dsa_params_present_0:
  "dsa_params_present D = 0 \<longleftrightarrow>
     GetTagValue_blob D KM_TAG_DSA_GENERATOR = None \<and> GetTagValue_blob D KM_TAG_DSA_P = None
     \<and> GetTagValue_blob D KM_TAG_DSA_Q = None"
  by (auto simp add: dsa_params_present_def split: if_splits)

lemma dsa_params_present_3:
  "dsa_params_present D = 3 \<longleftrightarrow>
     GetTagValue_blob D KM_TAG_DSA_GENERATOR \<noteq> None \<and> GetTagValue_blob D KM_TAG_DSA_P \<noteq> None
     \<and> GetTagValue_blob D KM_TAG_DSA_Q \<noteq> None"
  by (auto simp add: dsa_params_present_def split: if_splits)



section \<open>Properties: sealing a key and the entry points for new keys\<close>

subsection \<open>The scan of the key description\<close>

lemma SetAuthorizations_loop_unenforced:
  assumes soft: "\<And>t. \<not> is_enforced impl t"
  shows "SetAuthorizations_loop impl D (e, u) =
     (case List.find rejected_tag D of
        None \<Rightarrow> (None, e, u @ filter (\<lambda>p. \<not> hidden_tag p) D)
      | Some p \<Rightarrow>
          (Some (if tag p = KM_TAG_ROLLBACK_RESISTANT then KM_ERROR_UNSUPPORTED_TAG
                 else KM_ERROR_INVALID_TAG),
           e, u @ filter (\<lambda>p. \<not> hidden_tag p) (takeWhile (\<lambda>p. \<not> rejected_tag p) D)))"
proof (induction D arbitrary: u)
  case Nil
  then show ?case by simp
next
  case (Cons p ps)
  show ?case
    using Cons.IH soft
    by (auto simp add: rejected_tag_def hidden_tag_def AddAuthorization_def push_back_def
        split: option.splits)
qed

lemma SetAuthorizations_unenforced:
  assumes soft: "\<And>t. \<not> is_enforced impl t"
  shows "SetAuthorizations impl now D org =
     (case List.find rejected_tag D of
        None \<Rightarrow>
          (KM_ERROR_OK, [],
           filter (\<lambda>p. \<not> hidden_tag p) D @
             [Authorization KM_TAG_CREATION_DATETIME (Date_time now),
              Authorization KM_TAG_ORIGIN (Origin org)])
      | Some p \<Rightarrow>
          (if tag p = KM_TAG_ROLLBACK_RESISTANT then KM_ERROR_UNSUPPORTED_TAG
           else KM_ERROR_INVALID_TAG,
           [], filter (\<lambda>p. \<not> hidden_tag p) (takeWhile (\<lambda>p. \<not> rejected_tag p) D)))"
  using soft
  by (simp add: SetAuthorizations_def SetAuthorizations_loop_unenforced [OF soft]
      AddAuthorization_def push_back_def is_valid_def TranslateAuthorizationSetError_def
      split: option.splits)

lemma GenerateNonce_zero:
  "AndroidSoftKeymaster_GenerateNonce nonce n = replicate (min n (length nonce)) 0 @ drop n nonce"
proof (induction n)
  case 0
  then show ?case by (simp add: AndroidSoftKeymaster_GenerateNonce_def)
next
  case (Suc n)
  have "AndroidSoftKeymaster_GenerateNonce nonce (Suc n)
        = (AndroidSoftKeymaster_GenerateNonce nonce n)[n := 0]"
    by (simp add: AndroidSoftKeymaster_GenerateNonce_def)
  also have "\<dots> = (replicate (min n (length nonce)) 0 @ drop n nonce)[n := 0]"
    by (simp only: Suc.IH)
  also have "\<dots> = replicate (min (Suc n) (length nonce)) 0 @ drop (Suc n) nonce"
  proof (cases "n < length nonce")
    case True
    then have d: "drop n nonce = nonce ! n # drop (Suc n) nonce"
      by (simp add: Cons_nth_drop_Suc)
    from True have "(replicate (min n (length nonce)) 0 @ drop n nonce)[n := 0]
          = replicate n 0 @ (drop n nonce)[0 := 0]"
      by (simp add: list_update_append min_def)
    also have "\<dots> = replicate n 0 @ (0 # drop (Suc n) nonce)"
      by (simp add: d)
    also have "\<dots> = replicate (Suc n) 0 @ drop (Suc n) nonce"
      by (simp add: replicate_app_Cons_same)
    finally show ?thesis using True by (simp add: min_def)
  next
    case False
    then show ?thesis by (simp add: min_def list_update_beyond)
  qed
  finally show ?case .
qed

lemma AndroidSoftKeymaster_is_enforced: "\<not> is_enforced AndroidSoftKeymaster t"
  by (simp add: AndroidSoftKeymaster_def)

lemma AndroidSoftKeymaster_nonce:
  "GenerateNonce AndroidSoftKeymaster rng (map uninit [0..<NONCE_LENGTH]) NONCE_LENGTH
      = replicate 12 0"
  by (simp add: AndroidSoftKeymaster_def NONCE_LENGTH_def GenerateNonce_zero)

lemma AndroidSoftKeymaster_MasterKey:
  "MasterKey AndroidSoftKeymaster = AndroidSoftKeymaster_master_key"
  by (simp add: AndroidSoftKeymaster_def)

lemma BuildHiddenAuthorizations_ok:
  "fst (BuildHiddenAuthorizations impl input_set hidden) = KM_ERROR_OK"
  by (simp add: BuildHiddenAuthorizations_def Let_def is_valid_def
      TranslateAuthorizationSetError_def)

lemma SerializeKey_soft:
  "SerializeKey AndroidSoftKeymaster env now rng uninit key org =
     (case List.find rejected_tag (authorizations key) of
        Some p \<Rightarrow>
          (if tag p = KM_TAG_ROLLBACK_RESISTANT then KM_ERROR_UNSUPPORTED_TAG
           else KM_ERROR_INVALID_TAG, None,
           [], filter (\<lambda>p. \<not> hidden_tag p) (takeWhile (\<lambda>p. \<not> rejected_tag p) (authorizations key)))
      | None \<Rightarrow>
         (let enforced = [];
              unenforced = filter (\<lambda>p. \<not> hidden_tag p) (authorizations key) @
                 [Authorization KM_TAG_CREATION_DATETIME (Date_time now),
                  Authorization KM_TAG_ORIGIN (Origin org)];
              hidden = snd (BuildHiddenAuthorizations AndroidSoftKeymaster
                              (authorizations key) [])
          in case key_material env key of
               Inl error \<Rightarrow> (error, None, enforced, unenforced)
             | Inr material \<Rightarrow>
                 (case new_UnencryptedKeyBlob env enforced unenforced hidden material
                         AndroidSoftKeymaster_master_key (replicate 12 0) of
                    None \<Rightarrow> (KM_ERROR_MEMORY_ALLOCATION_FAILED, None, enforced, unenforced)
                  | Some blob \<Rightarrow>
                      if blob_error blob \<noteq> KM_ERROR_OK
                        then (blob_error blob, None, enforced, unenforced)
                      else if \<not> new_blob_bytes_ok env
                        then (KM_ERROR_MEMORY_ALLOCATION_FAILED, None, enforced, unenforced)
                      else (KM_ERROR_OK, Some (blob_serialized blob), enforced, unenforced))))"
  unfolding SerializeKey_def SetAuthorizations_unenforced [OF AndroidSoftKeymaster_is_enforced]
  by (auto simp add: Let_def split_beta BuildHiddenAuthorizations_ok AndroidSoftKeymaster_nonce
      AndroidSoftKeymaster_MasterKey split: option.splits sum.splits)

lemma SerializeKey_soft_deterministic:
  "SerializeKey AndroidSoftKeymaster env now rng uninit key org
   = SerializeKey AndroidSoftKeymaster env now rng' uninit' key org"
  by (simp only: SerializeKey_soft)

lemma AndroidSoftKeymaster_origin: "origin AndroidSoftKeymaster = KM_ORIGIN_SOFTWARE"
  by (simp add: AndroidSoftKeymaster_def)

lemma GenerateKey_no_algorithm:
  "GetTagValue_algorithm D KM_TAG_ALGORITHM = None \<Longrightarrow>
   rsp_error (GenerateKey impl env registry now rng uninit D) = KM_ERROR_UNSUPPORTED_ALGORITHM"
  by (simp add: GenerateKey_def KeyFactoryRegistry_Get_def)

text \<open>
  The responses of the software implementation: once the factory has produced a key,
  the first rejected tag among the key's authorizations decides the error; without one,
  \<open>enforced\<close> is empty and \<open>unenforced\<close> is the key's authorizations without the hidden
  tags, followed by the creation time and the origin.
\<close>

lemma GenerateKey_soft_response:
  assumes "KeyFactoryRegistry_Get registry D = Some factory"
    and "factory_GenerateKey factory D = Inr key"
  shows "(case List.find rejected_tag (authorizations key) of
            Some p \<Rightarrow>
              rsp_error (GenerateKey AndroidSoftKeymaster env registry now rng uninit D)
                = (if tag p = KM_TAG_ROLLBACK_RESISTANT then KM_ERROR_UNSUPPORTED_TAG
                   else KM_ERROR_INVALID_TAG)
          | None \<Rightarrow>
              rsp_enforced (GenerateKey AndroidSoftKeymaster env registry now rng uninit D) = []
              \<and> rsp_unenforced (GenerateKey AndroidSoftKeymaster env registry now rng uninit D)
                  = filter (\<lambda>p. \<not> hidden_tag p) (authorizations key) @
                      [Authorization KM_TAG_CREATION_DATETIME (Date_time now),
                       Authorization KM_TAG_ORIGIN (Origin KM_ORIGIN_SOFTWARE)])"
  using assms
  by (auto simp add: GenerateKey_def SerializeKey_soft Let_def AndroidSoftKeymaster_origin
      split: option.splits sum.splits)

lemma ImportKey_soft_response:
  assumes "KeyFactoryRegistry_Get registry D = Some factory"
    and "factory_ImportKey factory D key_format key_data = Inr key"
  shows "(case List.find rejected_tag (authorizations key) of
            Some p \<Rightarrow>
              rsp_error (ImportKey AndroidSoftKeymaster env registry now rng uninit D
                           key_format key_data)
                = (if tag p = KM_TAG_ROLLBACK_RESISTANT then KM_ERROR_UNSUPPORTED_TAG
                   else KM_ERROR_INVALID_TAG)
          | None \<Rightarrow>
              rsp_enforced (ImportKey AndroidSoftKeymaster env registry now rng uninit D
                              key_format key_data) = []
              \<and> rsp_unenforced (ImportKey AndroidSoftKeymaster env registry now rng uninit D
                                  key_format key_data)
                  = filter (\<lambda>p. \<not> hidden_tag p) (authorizations key) @
                      [Authorization KM_TAG_CREATION_DATETIME (Date_time now),
                       Authorization KM_TAG_ORIGIN (Origin KM_ORIGIN_IMPORTED)])"
  using assms
  by (auto simp add: ImportKey_def SerializeKey_soft Let_def
      split: option.splits sum.splits)

text \<open>
  The parameters that DSA key generation appends reach the unenforced set of the
  response.
\<close>

lemma DsaKey_GenerateKey_unenforced:
  assumes alloc: "DSA_new_ok env" "DSA_EVP_PKEY_new_ok env"
    and gen: "DSA_generate_key_ok env" "new_DsaKey_ok env"
    and none: "dsa_params_present D = 0"
    and params: "DSA_generate_parameters_ex env (dsa_key_size D) = Some dsa"
    and reg: "KeyFactoryRegistry_Get registry D = Some factory"
      "factory_GenerateKey factory = DsaKey_GenerateKey env"
    and clean: "List.find rejected_tag D = None"
  shows "rsp_enforced (GenerateKey AndroidSoftKeymaster kenv registry now rng uninit D) = []
       \<and> rsp_unenforced (GenerateKey AndroidSoftKeymaster kenv registry now rng uninit D) =
           filter (\<lambda>p. \<not> hidden_tag p) (dsa_with_key_size D) @
             [Authorization KM_TAG_DSA_GENERATOR (Blob (convert_bn_to_blob env (dsa_g dsa))),
              Authorization KM_TAG_DSA_P (Blob (convert_bn_to_blob env (dsa_p dsa))),
              Authorization KM_TAG_DSA_Q (Blob (convert_bn_to_blob env (dsa_q dsa))),
              Authorization KM_TAG_CREATION_DATETIME (Date_time now),
              Authorization KM_TAG_ORIGIN (Origin KM_ORIGIN_SOFTWARE)]"
proof -
  let ?A = "dsa_with_key_size D @
             [Authorization KM_TAG_DSA_GENERATOR (Blob (convert_bn_to_blob env (dsa_g dsa))),
              Authorization KM_TAG_DSA_P (Blob (convert_bn_to_blob env (dsa_p dsa))),
              Authorization KM_TAG_DSA_Q (Blob (convert_bn_to_blob env (dsa_q dsa)))]"
  from none have absent: "GetTagValue_blob D KM_TAG_DSA_GENERATOR = None"
    "GetTagValue_blob D KM_TAG_DSA_P = None" "GetTagValue_blob D KM_TAG_DSA_Q = None"
    by (simp_all add: dsa_params_present_0)
  have key: "factory_GenerateKey factory D = Inr \<lparr>key_handle = dsa, authorizations = ?A\<rparr>"
    using DsaKey_GenerateKey_none_present [OF alloc absent] params gen reg(2) by simp
  from clean have "List.find rejected_tag ?A = None"
    by (auto simp add: find_None_iff dsa_with_key_size_def rejected_tag_def split: option.splits)
  with GenerateKey_soft_response [OF reg(1) key, of kenv now rng uninit]
  show ?thesis by (simp add: hidden_tag_def)
qed

text \<open>
  C4, as the claim states it, fails: a key description that contains \<open>ORIGIN\<close> is rejected
  with \<open>UNSUPPORTED_TAG\<close>, not \<open>INVALID_TAG\<close>, when \<open>ROLLBACK_RESISTANT\<close> comes before it.
\<close>

theorem SetAuthorizations_origin_counterexample:
  "contains_tag [Authorization KM_TAG_ROLLBACK_RESISTANT (Boolean True),
                 Authorization KM_TAG_ORIGIN (Origin KM_ORIGIN_SOFTWARE)] KM_TAG_ORIGIN
   \<and> SetAuthorizations AndroidSoftKeymaster 0
        [Authorization KM_TAG_ROLLBACK_RESISTANT (Boolean True),
         Authorization KM_TAG_ORIGIN (Origin KM_ORIGIN_SOFTWARE)] KM_ORIGIN_SOFTWARE
      = (KM_ERROR_UNSUPPORTED_TAG, [], [])"
  by (simp add: SetAuthorizations_def AndroidSoftKeymaster_def contains_tag_def GetTagValue_def)

text \<open>
  C4, amended. \<open>SetAuthorizations\<close> scans the key description in order, and the first entry
  tagged \<open>ROOT_OF_TRUST\<close>, \<open>ORIGIN\<close> or \<open>ROLLBACK_RESISTANT\<close> decides the error: \<open>INVALID_TAG\<close>
  for the first two, \<open>UNSUPPORTED_TAG\<close> for the third. Without such an entry the call
  succeeds, the enforced set is empty (software mode) and the unenforced set is the
  description without \<open>APPLICATION_ID\<close> and \<open>APPLICATION_DATA\<close>, followed by
  \<open>CREATION_DATETIME\<close> and \<open>ORIGIN\<close>.
\<close>

theorem SetAuthorizations_software:
  "fst (SetAuthorizations AndroidSoftKeymaster now D org) =
     (case List.find rejected_tag D of
        None \<Rightarrow> KM_ERROR_OK
      | Some p \<Rightarrow> if tag p = KM_TAG_ROLLBACK_RESISTANT then KM_ERROR_UNSUPPORTED_TAG
                  else KM_ERROR_INVALID_TAG)
   \<and> (List.find rejected_tag D = None \<longrightarrow>
        SetAuthorizations AndroidSoftKeymaster now D org =
          (KM_ERROR_OK, [],
           filter (\<lambda>p. \<not> hidden_tag p) D @
             [Authorization KM_TAG_CREATION_DATETIME (Date_time now),
              Authorization KM_TAG_ORIGIN (Origin org)]))"
  by (simp add: SetAuthorizations_unenforced [OF AndroidSoftKeymaster_is_enforced]
      split: option.splits)

theorem SetAuthorizations_software_witness:
  "List.find rejected_tag
     [Authorization KM_TAG_PURPOSE (Purpose KM_PURPOSE_SIGN),
      Authorization KM_TAG_APPLICATION_ID (Blob [0x61]),
      Authorization KM_TAG_USER_ID (Integer 7)] = None
   \<and> SetAuthorizations AndroidSoftKeymaster 1000
        [Authorization KM_TAG_PURPOSE (Purpose KM_PURPOSE_SIGN),
         Authorization KM_TAG_APPLICATION_ID (Blob [0x61]),
         Authorization KM_TAG_USER_ID (Integer 7)] KM_ORIGIN_IMPORTED
      = (KM_ERROR_OK, [],
         [Authorization KM_TAG_PURPOSE (Purpose KM_PURPOSE_SIGN),
          Authorization KM_TAG_USER_ID (Integer 7),
          Authorization KM_TAG_CREATION_DATETIME (Date_time 1000),
          Authorization KM_TAG_ORIGIN (Origin KM_ORIGIN_IMPORTED)])
   \<and> fst (SetAuthorizations AndroidSoftKeymaster 1000
        [Authorization KM_TAG_USER_ID (Integer 7),
         Authorization KM_TAG_ROOT_OF_TRUST (Blob [0x53, 0x57])] KM_ORIGIN_SOFTWARE)
      = KM_ERROR_INVALID_TAG"
  using SetAuthorizations_software [of 1000
          "[Authorization KM_TAG_PURPOSE (Purpose KM_PURPOSE_SIGN),
            Authorization KM_TAG_APPLICATION_ID (Blob [0x61]),
            Authorization KM_TAG_USER_ID (Integer 7)]" KM_ORIGIN_IMPORTED]
        SetAuthorizations_software [of 1000
          "[Authorization KM_TAG_USER_ID (Integer 7),
            Authorization KM_TAG_ROOT_OF_TRUST (Blob [0x53, 0x57])]" KM_ORIGIN_SOFTWARE]
  by (simp add: rejected_tag_def hidden_tag_def)

text \<open>
  C9. \<open>AndroidSoftKeymaster::GenerateNonce\<close> writes zero into each of the requested bytes
  and nothing else. Hence every key blob that \<open>SerializeKey\<close> of the software
  implementation returns was sealed under the all-zero nonce of 12 bytes (and the
  all-zero master key), and the result of \<open>SerializeKey\<close> for a key, a creation time and
  an origin is the same whatever the state of the random source and whatever the local
  buffer held before.
\<close>

theorem AndroidSoftKeymaster_zero_nonce:
  "AndroidSoftKeymaster_GenerateNonce nonce n = replicate (min n (length nonce)) 0 @ drop n nonce
   \<and> (\<forall>b enf unenf.
         SerializeKey AndroidSoftKeymaster env now rng uninit key org
           = (KM_ERROR_OK, Some b, enf, unenf) \<longrightarrow>
         (\<exists>hidden material blob.
            key_material env key = Inr material
            \<and> new_UnencryptedKeyBlob env enf unenf hidden material
                 (replicate 16 0) (replicate NONCE_LENGTH 0) = Some blob
            \<and> blob_serialized blob = b))
   \<and> SerializeKey AndroidSoftKeymaster env now rng uninit key org
       = SerializeKey AndroidSoftKeymaster env now rng' uninit' key org"
proof (intro conjI allI impI)
  show "AndroidSoftKeymaster_GenerateNonce nonce n
          = replicate (min n (length nonce)) 0 @ drop n nonce"
    by (rule GenerateNonce_zero)
next
  fix b enf unenf
  assume ok: "SerializeKey AndroidSoftKeymaster env now rng uninit key org
                = (KM_ERROR_OK, Some b, enf, unenf)"
  have mk: "AndroidSoftKeymaster_master_key = replicate 16 0"
    by (simp add: AndroidSoftKeymaster_master_key_def numeral_eq_Suc)
  from ok show "\<exists>hidden material blob.
            key_material env key = Inr material
            \<and> new_UnencryptedKeyBlob env enf unenf hidden material
                 (replicate 16 0) (replicate NONCE_LENGTH 0) = Some blob
            \<and> blob_serialized blob = b"
    unfolding SerializeKey_soft mk NONCE_LENGTH_def
    by (auto simp add: Let_def split: option.splits sum.splits if_splits)
next
  show "SerializeKey AndroidSoftKeymaster env now rng uninit key org
       = SerializeKey AndroidSoftKeymaster env now rng' uninit' key org"
    by (rule SerializeKey_soft_deterministic)
qed

theorem AndroidSoftKeymaster_zero_nonce_witness:
  "SerializeKey AndroidSoftKeymaster (example_env :: unit keymaster_env) 1000
       (\<lambda>i. 0x5A) (\<lambda>i. 0xA5)
       \<lparr>key_handle = (), authorizations = [Authorization KM_TAG_APPLICATION_ID (Blob [0x61])]\<rparr>
       KM_ORIGIN_SOFTWARE
     = (KM_ERROR_OK, Some (replicate 12 0 @ [1, 2, 3]), [],
        [Authorization KM_TAG_CREATION_DATETIME (Date_time 1000),
         Authorization KM_TAG_ORIGIN (Origin KM_ORIGIN_SOFTWARE)])
   \<and> (\<exists>hidden material blob.
         key_material (example_env :: unit keymaster_env)
             \<lparr>key_handle = (),
              authorizations = [Authorization KM_TAG_APPLICATION_ID (Blob [0x61])]\<rparr>
           = Inr material
         \<and> new_UnencryptedKeyBlob (example_env :: unit keymaster_env) []
              [Authorization KM_TAG_CREATION_DATETIME (Date_time 1000),
               Authorization KM_TAG_ORIGIN (Origin KM_ORIGIN_SOFTWARE)]
              hidden material (replicate 16 0) (replicate NONCE_LENGTH 0) = Some blob
         \<and> blob_serialized blob = replicate 12 0 @ [1, 2, 3])"
proof -
  have eq: "SerializeKey AndroidSoftKeymaster (example_env :: unit keymaster_env) 1000
       (\<lambda>i. 0x5A) (\<lambda>i. 0xA5)
       \<lparr>key_handle = (), authorizations = [Authorization KM_TAG_APPLICATION_ID (Blob [0x61])]\<rparr>
       KM_ORIGIN_SOFTWARE
     = (KM_ERROR_OK, Some (replicate 12 0 @ [1, 2, 3]), [],
        [Authorization KM_TAG_CREATION_DATETIME (Date_time 1000),
         Authorization KM_TAG_ORIGIN (Origin KM_ORIGIN_SOFTWARE)])"
    by (simp add: SerializeKey_soft example_env_def rejected_tag_def hidden_tag_def)
  from AndroidSoftKeymaster_zero_nonce [THEN conjunct2, THEN conjunct1, rule_format, OF eq] eq
  show ?thesis by simp
qed

section \<open>Properties: the operation table\<close>

subsection \<open>The invariant and the release of handles\<close>

lemma table_inv_new: "table_inv (new_operation_table n)"
  by (simp add: table_inv_def new_operation_table_def list_all_iff)

lemma AddOperation_loop_inv:
  "table_inv t \<Longrightarrow> h \<noteq> 0 \<Longrightarrow> AddOperation_loop t op' h = Some t' \<Longrightarrow> table_inv t'"
  by (induction t arbitrary: t') (auto simp add: table_inv_def split: if_splits)

lemma AddOperation_inv:
  "table_inv t \<Longrightarrow> AddOperation t op' r d = (err, t', h) \<Longrightarrow> table_inv t'"
  by (auto simp add: AddOperation_def split: if_splits option.splits dest: AddOperation_loop_inv)

lemma table_inv_update:
  "table_inv t \<Longrightarrow> (operation e = None) = (handle e = 0) \<Longrightarrow> table_inv (t[i := e])"
  by (auto simp add: table_inv_def list_all_iff dest!: set_update_subset_insert [THEN subsetD])

lemma DeleteOperation_inv: "table_inv t \<Longrightarrow> table_inv (DeleteOperation t i)"
  by (simp add: DeleteOperation_def table_inv_update)

lemma FindOperation_loop_Some:
  "FindOperation_loop t h = Some i \<Longrightarrow>
   i < length t \<and> handle (t ! i) = h \<and> (\<forall>j<i. handle (t ! j) \<noteq> h)"
proof (induction t arbitrary: i)
  case Nil
  then show ?case by simp
next
  case (Cons e es)
  show ?case
  proof (cases "handle e = h")
    case True
    with Cons.prems show ?thesis by simp
  next
    case False
    with Cons.prems obtain k where k: "FindOperation_loop es h = Some k" "i = Suc k"
      by auto
    from Cons.IH [OF k(1)] False k(2) show ?thesis
      by (auto simp add: less_Suc_eq_0_disj)
  qed
qed

lemma FindOperation_loop_None:
  "FindOperation_loop t h = None \<longleftrightarrow> slots_holding t h = 0"
  by (induction t) (auto simp add: slots_holding_def)

lemma FindOperation_Some:
  "FindOperation t h = Some i \<Longrightarrow>
   h \<noteq> 0 \<and> i < length t \<and> handle (t ! i) = h \<and> (\<forall>j<i. handle (t ! j) \<noteq> h)"
  by (auto simp add: FindOperation_def split: if_splits dest: FindOperation_loop_Some)

lemma FindOperation_occupied:
  "table_inv t \<Longrightarrow> FindOperation t h = Some i \<Longrightarrow> \<exists>op'. operation (t ! i) = Some op'"
proof -
  assume inv: "table_inv t" and f: "FindOperation t h = Some i"
  from FindOperation_Some [OF f] have "h \<noteq> 0" "i < length t" "handle (t ! i) = h" by simp_all
  with inv have "operation (t ! i) \<noteq> None"
    by (auto simp add: table_inv_def list_all_length)
  then show ?thesis by auto
qed

lemma UpdateOperation_inv:
  "table_inv t \<Longrightarrow> UpdateOperation f t h = Some (err, t') \<Longrightarrow> table_inv t'"
proof -
  assume inv: "table_inv t" and u: "UpdateOperation f t h = Some (err, t')"
  show ?thesis
  proof (cases "FindOperation t h")
    case None
    with u inv show ?thesis by (simp add: UpdateOperation_def)
  next
    case (Some i)
    from FindOperation_Some [OF Some] have i: "h \<noteq> 0" "i < length t" "handle (t ! i) = h"
      by simp_all
    from FindOperation_occupied [OF inv Some] obtain op' where op': "operation (t ! i) = Some op'"
      by auto
    obtain e op'' where f: "f op' = (e, op'')" by (cases "f op'")
    have inv': "table_inv (t[i := (t ! i)\<lparr>operation := Some op''\<rparr>])"
      using inv i by (intro table_inv_update) simp_all
    from u Some op' f inv' show ?thesis
      by (auto simp add: UpdateOperation_def DeleteOperation_inv Let_def split: if_splits)
  qed
qed

lemma FinishOperation_inv:
  "table_inv t \<Longrightarrow> FinishOperation f t h = Some (err, t') \<Longrightarrow> table_inv t'"
  by (auto simp add: FinishOperation_def DeleteOperation_inv split: option.splits)

lemma AbortOperation_inv:
  "table_inv t \<Longrightarrow> AbortOperation f t h = Some (err, t') \<Longrightarrow> table_inv t'"
  by (auto simp add: AbortOperation_def DeleteOperation_inv Let_def split: option.splits if_splits)

lemma call_inv: "table_inv t \<Longrightarrow> call t c = Some (err, t') \<Longrightarrow> table_inv t'"
proof (cases c)
  case (Add op' r d)
  assume inv: "table_inv t" and c: "call t c = Some (err, t')"
  obtain e t1 h where a: "AddOperation t op' r d = (e, t1, h)"
    by (cases "AddOperation t op' r d")
  with c Add have "t1 = t'" by simp
  with AddOperation_inv [OF inv a] show ?thesis by simp
next
  case (Update f h)
  then show "table_inv t \<Longrightarrow> call t c = Some (err, t') \<Longrightarrow> table_inv t'"
    using UpdateOperation_inv [of t f h err t'] by simp
next
  case (Finish f h)
  then show "table_inv t \<Longrightarrow> call t c = Some (err, t') \<Longrightarrow> table_inv t'"
    using FinishOperation_inv [of t f h err t'] by simp
next
  case (Abort f h)
  then show "table_inv t \<Longrightarrow> call t c = Some (err, t') \<Longrightarrow> table_inv t'"
    using AbortOperation_inv [of t f h err t'] by simp
qed

lemma call_total: "table_inv t \<Longrightarrow> \<exists>err t'. call t c = Some (err, t')"
proof (cases c)
  case (Add op' r d)
  then show ?thesis by (simp split: prod.splits)
next
  case (Update f h)
  assume inv: "table_inv t"
  show ?thesis
  proof (cases "FindOperation t h")
    case None
    with Update show ?thesis by (simp add: UpdateOperation_def)
  next
    case (Some i)
    from FindOperation_occupied [OF inv Some] obtain op' where "operation (t ! i) = Some op'"
      by auto
    with Update Some show ?thesis
      by (simp add: UpdateOperation_def Let_def split: prod.splits)
  qed
next
  case (Finish f h)
  assume inv: "table_inv t"
  show ?thesis
  proof (cases "FindOperation t h")
    case None
    with Finish show ?thesis by (simp add: FinishOperation_def)
  next
    case (Some i)
    from FindOperation_occupied [OF inv Some] obtain op' where "operation (t ! i) = Some op'"
      by auto
    with Finish Some show ?thesis
      by (simp add: FinishOperation_def)
  qed
next
  case (Abort f h)
  assume inv: "table_inv t"
  show ?thesis
  proof (cases "FindOperation t h")
    case None
    with Abort show ?thesis by (simp add: AbortOperation_def)
  next
    case (Some i)
    from FindOperation_occupied [OF inv Some] obtain op' where "operation (t ! i) = Some op'"
      by auto
    with Abort Some show ?thesis
      by (simp add: AbortOperation_def Let_def)
  qed
qed

lemma run_total_inv: "table_inv t \<Longrightarrow> \<exists>t'. run t cs = Some t' \<and> table_inv t'"
proof (induction cs arbitrary: t)
  case Nil
  then show ?case by simp
next
  case (Cons c cs)
  from call_total [OF Cons.prems, of c] obtain err t1 where c: "call t c = Some (err, t1)"
    by auto
  from call_inv [OF Cons.prems c] have "table_inv t1" .
  from Cons.IH [OF this] c show ?case by simp
qed

lemma AddOperation_loop_first_empty:
  "i < length t \<Longrightarrow> operation (t ! i) = None \<Longrightarrow> (\<forall>j<i. operation (t ! j) \<noteq> None) \<Longrightarrow>
   AddOperation_loop t op' h = Some (t[i := \<lparr>handle = h, operation = Some op'\<rparr>])"
proof (induction t arbitrary: i)
  case Nil
  then show ?case by simp
next
  case (Cons e es)
  show ?case
  proof (cases i)
    case 0
    with Cons.prems show ?thesis by simp
  next
    case (Suc k)
    with Cons.prems have e: "operation e \<noteq> None" by auto
    from Cons.prems Suc have "k < length es" "operation (es ! k) = None"
      "\<forall>j<k. operation (es ! j) \<noteq> None"
      by auto
    from Cons.IH [OF this] e Suc show ?thesis by auto
  qed
qed

lemma AddOperation_loop_full:
  "(\<forall>e\<in>set t. operation e \<noteq> None) \<Longrightarrow> AddOperation_loop t op' h = None"
  by (induction t) auto

lemma slots_holding_DeleteOperation:
  assumes "i < length t" and "handle (t ! i) = h" and "h \<noteq> 0"
  shows "slots_holding (DeleteOperation t i) h = slots_holding t h - 1"
  using assms
proof (induction t arbitrary: i)
  case Nil
  then show ?case by simp
next
  case (Cons e es)
  show ?case
  proof (cases i)
    case 0
    with Cons.prems show ?thesis
      by (simp add: slots_holding_def DeleteOperation_def)
  next
    case (Suc k)
    with Cons.prems have k: "k < length es" "handle (es ! k) = h" by simp_all
    from Cons.IH [OF k Cons.prems(3)]
    have ih: "slots_holding (DeleteOperation es k) h = slots_holding es h - 1" .
    from k have "es ! k \<in> set (filter (\<lambda>e. handle e = h) es)"
      by simp
    then have "0 < slots_holding es h"
      unfolding slots_holding_def by (rule length_pos_if_in_set)
    with ih Suc show ?thesis
      by (simp add: slots_holding_def DeleteOperation_def)
  qed
qed

lemma FindOperation_None: "FindOperation t h = None \<longleftrightarrow> h = 0 \<or> slots_holding t h = 0"
  by (simp add: FindOperation_def FindOperation_loop_None)

lemma slots_holding_operation_update:
  "i < length t \<Longrightarrow> slots_holding (t[i := (t ! i)\<lparr>operation := x\<rparr>]) h = slots_holding t h"
proof (induction t arbitrary: i)
  case Nil
  then show ?case by simp
next
  case (Cons e es)
  then show ?case by (cases i) (simp_all add: slots_holding_def)
qed

lemma released_after_delete:
  assumes "slots_holding t h \<le> 1" and "FindOperation t h = Some i"
  shows "FindOperation (DeleteOperation t i) h = None"
proof -
  from FindOperation_Some [OF assms(2)] have i: "h \<noteq> 0" "i < length t" "handle (t ! i) = h"
    by simp_all
  from slots_holding_DeleteOperation [OF i(2,3,1)] assms(1)
  have "slots_holding (DeleteOperation t i) h = 0" by simp
  then show ?thesis by (simp add: FindOperation_None)
qed

lemma FinishOperation_releases:
  assumes "slots_holding t h \<le> 1" and "FinishOperation f t h = Some (err, t')"
  shows "FindOperation t' h = None"
proof (cases "FindOperation t h")
  case None
  with assms(2) show ?thesis by (simp add: FinishOperation_def)
next
  case (Some i)
  from released_after_delete [OF assms(1) Some] assms(2) Some show ?thesis
    by (auto simp add: FinishOperation_def split: option.splits)
qed

lemma AbortOperation_releases:
  assumes "slots_holding t h \<le> 1" and "AbortOperation f t h = Some (err, t')"
  shows "FindOperation t' h = None"
proof (cases "FindOperation t h")
  case None
  with assms(2) show ?thesis by (simp add: AbortOperation_def)
next
  case (Some i)
  from released_after_delete [OF assms(1) Some] assms(2) Some show ?thesis
    by (auto simp add: AbortOperation_def Let_def split: option.splits if_splits)
qed

lemma UpdateOperation_error_releases:
  assumes "slots_holding t h \<le> 1" and "UpdateOperation f t h = Some (err, t')"
    and "err \<noteq> KM_ERROR_OK"
  shows "FindOperation t' h = None"
proof (cases "FindOperation t h")
  case None
  with assms(2) show ?thesis by (simp add: UpdateOperation_def)
next
  case (Some i)
  from FindOperation_Some [OF Some] have i: "h \<noteq> 0" "i < length t" "handle (t ! i) = h"
    by simp_all
  from assms(2) Some obtain op' where op': "operation (t ! i) = Some op'"
    by (auto simp add: UpdateOperation_def split: option.splits)
  obtain e op'' where f: "f op' = (e, op'')" by (cases "f op'")
  let ?t1 = "t[i := (t ! i)\<lparr>operation := Some op''\<rparr>]"
  from assms(2,3) Some op' f have t': "t' = DeleteOperation ?t1 i"
    by (auto simp add: UpdateOperation_def Let_def split: if_splits)
  have "slots_holding (DeleteOperation ?t1 i) h = slots_holding ?t1 h - 1"
    using i by (intro slots_holding_DeleteOperation) simp_all
  also have "slots_holding ?t1 h = slots_holding t h"
    using i by (simp add: slots_holding_operation_update)
  finally show ?thesis using assms(1) t' by (simp add: FindOperation_None)
qed

lemma released_calls:
  assumes "FindOperation t h = None"
  shows "UpdateOperation u t h = Some (KM_ERROR_INVALID_OPERATION_HANDLE, t)"
    and "FinishOperation f t h = Some (KM_ERROR_INVALID_OPERATION_HANDLE, t)"
    and "AbortOperation a t h = Some (KM_ERROR_INVALID_OPERATION_HANDLE, t)"
  using assms by (simp_all add: UpdateOperation_def FinishOperation_def AbortOperation_def)

lemma slots_holding_update_le:
  "handle e \<noteq> h \<or> handle (t ! i) = h \<Longrightarrow> slots_holding (t[i := e]) h \<le> slots_holding t h"
proof (induction t arbitrary: i)
  case Nil
  then show ?case by simp
next
  case (Cons x xs)
  show ?case
  proof (cases i)
    case 0
    with Cons.prems show ?thesis by (auto simp add: slots_holding_def)
  next
    case (Suc k)
    with Cons.prems have "handle e \<noteq> h \<or> handle (xs ! k) = h" by simp
    from Cons.IH [OF this] Suc show ?thesis by (simp add: slots_holding_def)
  qed
qed

lemma AddOperation_loop_slots:
  "AddOperation_loop t op' d = Some t' \<Longrightarrow> d \<noteq> h \<Longrightarrow> slots_holding t' h \<le> slots_holding t h"
  by (induction t arbitrary: t') (auto simp add: slots_holding_def split: if_splits)

lemma call_slots_holding:
  assumes "h \<noteq> 0" and "call t c = Some (err, t')" and "\<not> draws h c"
  shows "slots_holding t' h \<le> slots_holding t h"
proof (cases c)
  case (Add op' r d)
  with assms show ?thesis
    by (auto simp add: AddOperation_def split: if_splits option.splits
        dest: AddOperation_loop_slots)
next
  case (Update f k)
  show ?thesis
  proof (cases "FindOperation t k")
    case None
    with assms Update show ?thesis by (simp add: UpdateOperation_def)
  next
    case (Some i)
    from FindOperation_Some [OF Some] have i: "i < length t" by simp
    from assms(2) Update Some obtain op' where op': "operation (t ! i) = Some op'"
      by (auto simp add: UpdateOperation_def split: option.splits)
    obtain e op'' where f: "f op' = (e, op'')" by (cases "f op'")
    let ?t1 = "t[i := (t ! i)\<lparr>operation := Some op''\<rparr>]"
    have t1: "slots_holding ?t1 h = slots_holding t h"
      using i by (simp add: slots_holding_operation_update)
    have "slots_holding (DeleteOperation ?t1 i) h \<le> slots_holding ?t1 h"
      unfolding DeleteOperation_def using assms(1) by (intro slots_holding_update_le) simp
    with t1 assms(2) Update Some op' f show ?thesis
      by (auto simp add: UpdateOperation_def Let_def split: if_splits)
  qed
next
  case (Finish f k)
  have "slots_holding (DeleteOperation t i) h \<le> slots_holding t h" for i
    unfolding DeleteOperation_def using assms(1) by (intro slots_holding_update_le) simp
  with assms(2) Finish show ?thesis
    by (auto simp add: FinishOperation_def split: option.splits)
next
  case (Abort f k)
  have "slots_holding (DeleteOperation t i) h \<le> slots_holding t h" for i
    unfolding DeleteOperation_def using assms(1) by (intro slots_holding_update_le) simp
  with assms(2) Abort show ?thesis
    by (auto simp add: AbortOperation_def Let_def split: option.splits if_splits)
qed

lemma call_released:
  assumes "FindOperation t h = None" and "call t c = Some (err, t')" and "\<not> draws h c"
  shows "FindOperation t' h = None"
proof (cases "h = 0")
  case True
  then show ?thesis by (simp add: FindOperation_def)
next
  case False
  with assms(1) have "slots_holding t h = 0" by (simp add: FindOperation_None)
  with call_slots_holding [OF False assms(2,3)] show ?thesis
    by (simp add: FindOperation_None)
qed

lemma run_released:
  "FindOperation t h = None \<Longrightarrow> \<forall>c\<in>set cs. \<not> draws h c \<Longrightarrow> run t cs = Some t' \<Longrightarrow>
   FindOperation t' h = None"
proof (induction cs arbitrary: t)
  case Nil
  then show ?case by simp
next
  case (Cons c cs)
  from Cons.prems(3) obtain err t1 where c: "call t c = Some (err, t1)" and r: "run t1 cs = Some t'"
    by (auto split: option.splits)
  from Cons.prems(2) have nd: "\<not> draws h c" "\<forall>c\<in>set cs. \<not> draws h c" by simp_all
  from call_released [OF Cons.prems(1) c nd(1)] have "FindOperation t1 h = None" .
  from Cons.IH [OF this nd(2) r] show ?case .
qed

text \<open>
  The table after a release: the entry that \<open>FindOperation\<close> returned is the one that
  \<open>DeleteOperation\<close> empties.
\<close>

lemma released_pinned:
  fixes t :: "'op OpTableEntry list"
  assumes "FindOperation t h = Some i" and "operation (t ! i) = Some op'"
  shows "FinishOperation f t h = Some (f op', t[i := \<lparr>handle = 0, operation = None\<rparr>])"
    and "AbortOperation a t h = Some (a op', t[i := \<lparr>handle = 0, operation = None\<rparr>])"
    and "fst (u op') \<noteq> KM_ERROR_OK \<Longrightarrow>
           UpdateOperation u t h = Some (fst (u op'), t[i := \<lparr>handle = 0, operation = None\<rparr>])"
    and "fst (u op') = KM_ERROR_OK \<Longrightarrow>
           UpdateOperation u t h
             = Some (KM_ERROR_OK, t[i := \<lparr>handle = h, operation = Some (snd (u op'))\<rparr>])"
proof -
  from FindOperation_Some [OF assms(1)] have i: "h \<noteq> 0" "i < length t" "handle (t ! i) = h"
    by simp_all
  show "FinishOperation f t h = Some (f op', t[i := \<lparr>handle = 0, operation = None\<rparr>])"
    using assms by (simp add: FinishOperation_def DeleteOperation_def)
  show "AbortOperation a t h = Some (a op', t[i := \<lparr>handle = 0, operation = None\<rparr>])"
    using assms by (simp add: AbortOperation_def DeleteOperation_def Let_def)
  show "UpdateOperation u t h = Some (fst (u op'), t[i := \<lparr>handle = 0, operation = None\<rparr>])"
    if "fst (u op') \<noteq> KM_ERROR_OK"
    using assms that
    by (simp add: UpdateOperation_def DeleteOperation_def Let_def split_beta)
  have "(t ! i)\<lparr>operation := Some (snd (u op'))\<rparr> = \<lparr>handle = h, operation = Some (snd (u op'))\<rparr>"
    using i(3) by simp
  then show "UpdateOperation u t h
             = Some (KM_ERROR_OK, t[i := \<lparr>handle = h, operation = Some (snd (u op'))\<rparr>])"
    if "fst (u op') = KM_ERROR_OK"
    using assms that
    by (simp add: UpdateOperation_def Let_def split_beta)
qed


lemma new_operation_table_2:
  "new_operation_table 2 = [\<lparr>handle = 0, operation = None\<rparr>, \<lparr>handle = 0, operation = None\<rparr>]"
  by (simp add: new_operation_table_def numeral_2_eq_2)

text \<open>
  C6, as the claim states it, fails: a drawn handle of 0 is not retried; \<open>AddOperation\<close>
  returns \<open>UNKNOWN_ERROR\<close> and leaves the table, which has room, as it is.
\<close>

theorem AddOperation_zero_handle_counterexample:
  "AddOperation (new_operation_table 2) () 1 0
     = (KM_ERROR_UNKNOWN_ERROR,
        [\<lparr>handle = 0, operation = None\<rparr>, \<lparr>handle = 0, operation = None\<rparr>], 0)"
  by (simp add: AddOperation_def new_operation_table_2)

text \<open>
  C6, amended. \<open>AddOperation\<close> draws the 64-bit handle with \<open>RAND_bytes\<close>. When \<open>RAND_bytes\<close>
  fails or the drawn handle is 0 it returns \<open>UNKNOWN_ERROR\<close> without a retry and without
  touching the table. Otherwise the operation and the handle, which is not 0, go into
  the first slot without an operation and the call returns \<open>OK\<close>; when every slot has
  an operation it returns \<open>TOO_MANY_OPERATIONS\<close> and the table is unchanged.
\<close>

theorem AddOperation_allocation:
  "(rand_ret = 0 \<or> drawn = 0 \<longrightarrow>
      AddOperation t op' rand_ret drawn = (KM_ERROR_UNKNOWN_ERROR, t, drawn))
   \<and> (rand_ret \<noteq> 0 \<and> drawn \<noteq> 0 \<longrightarrow>
        (\<forall>i. i < length t \<and> operation (t ! i) = None \<and> (\<forall>j<i. operation (t ! j) \<noteq> None) \<longrightarrow>
           AddOperation t op' rand_ret drawn
             = (KM_ERROR_OK, t[i := \<lparr>handle = drawn, operation = Some op'\<rparr>], drawn))
        \<and> ((\<forall>e\<in>set t. operation e \<noteq> None) \<longrightarrow>
             AddOperation t op' rand_ret drawn = (KM_ERROR_TOO_MANY_OPERATIONS, t, drawn)))"
proof (intro conjI impI allI)
  assume "rand_ret = 0 \<or> drawn = 0"
  then show "AddOperation t op' rand_ret drawn = (KM_ERROR_UNKNOWN_ERROR, t, drawn)"
    by (auto simp add: AddOperation_def)
next
  fix i
  assume ok: "rand_ret \<noteq> 0 \<and> drawn \<noteq> 0"
    and i: "i < length t \<and> operation (t ! i) = None \<and> (\<forall>j<i. operation (t ! j) \<noteq> None)"
  from i have "AddOperation_loop t op' drawn
                 = Some (t[i := \<lparr>handle = drawn, operation = Some op'\<rparr>])"
    by (intro AddOperation_loop_first_empty) simp_all
  with ok show "AddOperation t op' rand_ret drawn
             = (KM_ERROR_OK, t[i := \<lparr>handle = drawn, operation = Some op'\<rparr>], drawn)"
    by (simp add: AddOperation_def)
next
  assume ok: "rand_ret \<noteq> 0 \<and> drawn \<noteq> 0" and full: "\<forall>e\<in>set t. operation e \<noteq> None"
  from full have "AddOperation_loop t op' drawn = None"
    by (rule AddOperation_loop_full)
  with ok show "AddOperation t op' rand_ret drawn = (KM_ERROR_TOO_MANY_OPERATIONS, t, drawn)"
    by (simp add: AddOperation_def)
qed

theorem AddOperation_allocation_witness:
  "AddOperation [\<lparr>handle = 9, operation = Some ()\<rparr>, \<lparr>handle = 0, operation = None\<rparr>] () 1 7
     = (KM_ERROR_OK, [\<lparr>handle = 9, operation = Some ()\<rparr>, \<lparr>handle = 7, operation = Some ()\<rparr>], 7)
   \<and> AddOperation [\<lparr>handle = 9, operation = Some ()\<rparr>, \<lparr>handle = 7, operation = Some ()\<rparr>] () 1 3
     = (KM_ERROR_TOO_MANY_OPERATIONS,
        [\<lparr>handle = 9, operation = Some ()\<rparr>, \<lparr>handle = 7, operation = Some ()\<rparr>], 3)
   \<and> AddOperation [\<lparr>handle = 9, operation = Some ()\<rparr>, \<lparr>handle = 0, operation = None\<rparr>] () 0 7
     = (KM_ERROR_UNKNOWN_ERROR,
        [\<lparr>handle = 9, operation = Some ()\<rparr>, \<lparr>handle = 0, operation = None\<rparr>], 7)"
proof -
  have a: "AddOperation [\<lparr>handle = 9, operation = Some ()\<rparr>, \<lparr>handle = 0, operation = None\<rparr>] () 1 7
     = (KM_ERROR_OK, [\<lparr>handle = 9, operation = Some ()\<rparr>, \<lparr>handle = 7, operation = Some ()\<rparr>], 7)"
    using AddOperation_allocation
            [of 1 7 "[\<lparr>handle = 9, operation = Some ()\<rparr>, \<lparr>handle = 0, operation = None\<rparr>]" "()",
             THEN conjunct2, rule_format, THEN conjunct1, rule_format, of 1]
    by simp
  have ok: "(1::int) \<noteq> 0 \<and> (3::64 word) \<noteq> 0"
    by simp
  have full: "\<forall>e\<in>set [\<lparr>handle = 9, operation = Some ()\<rparr>, \<lparr>handle = 7, operation = Some ()\<rparr>].
                operation e \<noteq> None"
    by simp
  have b: "AddOperation [\<lparr>handle = 9, operation = Some ()\<rparr>, \<lparr>handle = 7, operation = Some ()\<rparr>] () 1 3
     = (KM_ERROR_TOO_MANY_OPERATIONS,
        [\<lparr>handle = 9, operation = Some ()\<rparr>, \<lparr>handle = 7, operation = Some ()\<rparr>], 3)"
    by (rule AddOperation_allocation
            [of 1 3 "[\<lparr>handle = 9, operation = Some ()\<rparr>, \<lparr>handle = 7, operation = Some ()\<rparr>]" "()",
             THEN conjunct2, THEN mp, OF ok, THEN conjunct2, THEN mp, OF full])
  have c: "AddOperation [\<lparr>handle = 9, operation = Some ()\<rparr>, \<lparr>handle = 0, operation = None\<rparr>] () 0 7
     = (KM_ERROR_UNKNOWN_ERROR,
        [\<lparr>handle = 9, operation = Some ()\<rparr>, \<lparr>handle = 0, operation = None\<rparr>], 7)"
    using AddOperation_allocation
            [of 0 7 "[\<lparr>handle = 9, operation = Some ()\<rparr>, \<lparr>handle = 0, operation = None\<rparr>]" "()",
             THEN conjunct1, rule_format]
    by simp
  from a b c show ?thesis by simp
qed

text \<open>
  C5, as the claim states it, fails: \<open>AddOperation\<close> does not compare a drawn handle with
  the handles in use, and when the same handle is drawn twice the first \<open>Abort\<close> releases
  one slot and the second \<open>Abort\<close> with the same handle succeeds on the other.
\<close>

theorem AbortOperation_twice_counterexample:
  "AddOperation (new_operation_table 2) () 1 5
     = (KM_ERROR_OK, [\<lparr>handle = 5, operation = Some ()\<rparr>, \<lparr>handle = 0, operation = None\<rparr>], 5)
   \<and> AddOperation [\<lparr>handle = 5, operation = Some ()\<rparr>, \<lparr>handle = 0, operation = None\<rparr>] () 1 5
     = (KM_ERROR_OK, [\<lparr>handle = 5, operation = Some ()\<rparr>, \<lparr>handle = 5, operation = Some ()\<rparr>], 5)
   \<and> AbortOperation (\<lambda>op'. KM_ERROR_OK)
        [\<lparr>handle = 5, operation = Some ()\<rparr>, \<lparr>handle = 5, operation = Some ()\<rparr>] 5
     = Some (KM_ERROR_OK, [\<lparr>handle = 0, operation = None\<rparr>, \<lparr>handle = 5, operation = Some ()\<rparr>])
   \<and> AbortOperation (\<lambda>op'. KM_ERROR_OK)
        [\<lparr>handle = 0, operation = None\<rparr>, \<lparr>handle = 5, operation = Some ()\<rparr>] 5
     = Some (KM_ERROR_OK, [\<lparr>handle = 0, operation = None\<rparr>, \<lparr>handle = 0, operation = None\<rparr>])"
  by (simp add: AddOperation_def new_operation_table_2 AbortOperation_def
      FindOperation_def DeleteOperation_def)

text \<open>
  C5, amended. Let \<open>FindOperation\<close> return slot \<open>i\<close> for the handle \<open>h\<close>, the slot holding an
  operation. Then \<open>FinishOperation\<close> and \<open>AbortOperation\<close> return what the operation's method
  returns and release the slot: slot \<open>i\<close> gets handle 0 and no operation, and the other
  slots stay as they are. \<open>UpdateOperation\<close> does the same when the operation's \<open>Update\<close>
  returns an error, and keeps the slot with its handle when \<open>Update\<close> returns \<open>OK\<close>. When at
  most one slot of the table holds \<open>h\<close>, no slot holds \<open>h\<close> after the release. While no
  slot holds \<open>h\<close>, \<open>Update\<close>, \<open>Finish\<close> and \<open>Abort\<close> with \<open>h\<close> return
  \<open>INVALID_OPERATION_HANDLE\<close> and leave the table unchanged, and this stays so over any
  later calls among which no \<open>AddOperation\<close> draws \<open>h\<close> again.
\<close>

theorem handle_released:
  fixes t :: "'op OpTableEntry list"
  shows
    "(\<forall>i op'. FindOperation t h = Some i \<and> operation (t ! i) = Some op' \<longrightarrow>
        FinishOperation f t h = Some (f op', t[i := \<lparr>handle = 0, operation = None\<rparr>])
        \<and> AbortOperation a t h = Some (a op', t[i := \<lparr>handle = 0, operation = None\<rparr>])
        \<and> (fst (u op') \<noteq> KM_ERROR_OK \<longrightarrow>
             UpdateOperation u t h
               = Some (fst (u op'), t[i := \<lparr>handle = 0, operation = None\<rparr>]))
        \<and> (fst (u op') = KM_ERROR_OK \<longrightarrow>
             UpdateOperation u t h
               = Some (KM_ERROR_OK, t[i := \<lparr>handle = h, operation = Some (snd (u op'))\<rparr>]))
        \<and> (slots_holding t h \<le> 1 \<longrightarrow>
             FindOperation (t[i := \<lparr>handle = 0, operation = None\<rparr>]) h = None))
     \<and> (slots_holding t h \<le> 1 \<longrightarrow>
          (\<forall>err t'. FinishOperation f t h = Some (err, t') \<longrightarrow> FindOperation t' h = None)
          \<and> (\<forall>err t'. AbortOperation a t h = Some (err, t') \<longrightarrow> FindOperation t' h = None)
          \<and> (\<forall>err t'. UpdateOperation u t h = Some (err, t') \<and> err \<noteq> KM_ERROR_OK \<longrightarrow>
                FindOperation t' h = None))
     \<and> (\<forall>t' :: 'op OpTableEntry list. FindOperation t' h = None \<longrightarrow>
           UpdateOperation u' t' h = Some (KM_ERROR_INVALID_OPERATION_HANDLE, t')
           \<and> FinishOperation f' t' h = Some (KM_ERROR_INVALID_OPERATION_HANDLE, t')
           \<and> AbortOperation a' t' h = Some (KM_ERROR_INVALID_OPERATION_HANDLE, t'))
     \<and> (\<forall>(t' :: 'op OpTableEntry list) cs t''.
           FindOperation t' h = None \<and> (\<forall>c\<in>set cs. \<not> draws h c)
           \<and> run t' cs = Some t'' \<longrightarrow> FindOperation t'' h = None)"
proof (intro conjI allI impI)
  fix i op'
  assume found: "FindOperation t h = Some i \<and> operation (t ! i) = Some op'"
  then have f: "FindOperation t h = Some i" and o: "operation (t ! i) = Some op'"
    by simp_all
  show "FinishOperation f t h = Some (f op', t[i := \<lparr>handle = 0, operation = None\<rparr>])"
    by (rule released_pinned(1) [OF f o])
  show "AbortOperation a t h = Some (a op', t[i := \<lparr>handle = 0, operation = None\<rparr>])"
    by (rule released_pinned(2) [OF f o])
  show "UpdateOperation u t h = Some (fst (u op'), t[i := \<lparr>handle = 0, operation = None\<rparr>])"
    if "fst (u op') \<noteq> KM_ERROR_OK"
    using released_pinned(3) [of t h i op' u, OF f o that] .
  show "UpdateOperation u t h
          = Some (KM_ERROR_OK, t[i := \<lparr>handle = h, operation = Some (snd (u op'))\<rparr>])"
    if "fst (u op') = KM_ERROR_OK"
    using released_pinned(4) [of t h i op' u, OF f o that] .
  show "FindOperation (t[i := \<lparr>handle = 0, operation = None\<rparr>]) h = None"
    if "slots_holding t h \<le> 1"
    using released_after_delete [OF that f] by (simp add: DeleteOperation_def)
next
  fix err t'
  assume "slots_holding t h \<le> 1" and "FinishOperation f t h = Some (err, t')"
  then show "FindOperation t' h = None" by (rule FinishOperation_releases)
next
  fix err t'
  assume "slots_holding t h \<le> 1" and "AbortOperation a t h = Some (err, t')"
  then show "FindOperation t' h = None" by (rule AbortOperation_releases)
next
  fix err t'
  assume "slots_holding t h \<le> 1"
    and "UpdateOperation u t h = Some (err, t') \<and> err \<noteq> KM_ERROR_OK"
  then show "FindOperation t' h = None"
    by (auto intro: UpdateOperation_error_releases)
next
  fix t' :: "'op OpTableEntry list"
  assume r: "FindOperation t' h = None"
  show "UpdateOperation u' t' h = Some (KM_ERROR_INVALID_OPERATION_HANDLE, t')"
    by (rule released_calls(1) [OF r])
  show "FinishOperation f' t' h = Some (KM_ERROR_INVALID_OPERATION_HANDLE, t')"
    by (rule released_calls(2) [OF r])
  show "AbortOperation a' t' h = Some (KM_ERROR_INVALID_OPERATION_HANDLE, t')"
    by (rule released_calls(3) [OF r])
next
  fix t' :: "'op OpTableEntry list" and cs t''
  assume "FindOperation t' h = None \<and> (\<forall>c\<in>set cs. \<not> draws h c) \<and> run t' cs = Some t''"
  then show "FindOperation t'' h = None"
    by (auto intro: run_released)
qed

theorem handle_released_witness:
  "FindOperation [\<lparr>handle = 5, operation = Some ()\<rparr>, \<lparr>handle = 0, operation = None\<rparr>] 5 = Some 0
   \<and> slots_holding [\<lparr>handle = 5, operation = Some ()\<rparr>, \<lparr>handle = 0, operation = None\<rparr>] 5 \<le> 1
   \<and> AbortOperation (\<lambda>op'. KM_ERROR_OK)
        [\<lparr>handle = 5, operation = Some ()\<rparr>, \<lparr>handle = 0, operation = None\<rparr>] 5
     = Some (KM_ERROR_OK, [\<lparr>handle = 0, operation = None\<rparr>, \<lparr>handle = 0, operation = None\<rparr>])
   \<and> UpdateOperation (\<lambda>op'. (KM_ERROR_INVALID_INPUT_LENGTH, op'))
        [\<lparr>handle = 5, operation = Some ()\<rparr>, \<lparr>handle = 0, operation = None\<rparr>] 5
     = Some (KM_ERROR_INVALID_INPUT_LENGTH,
             [\<lparr>handle = 0, operation = None\<rparr>, \<lparr>handle = 0, operation = None\<rparr>])
   \<and> FindOperation [\<lparr>handle = 0, operation = None :: unit option\<rparr>,
                     \<lparr>handle = 0, operation = None\<rparr>] 5 = None
   \<and> AbortOperation (\<lambda>op'. KM_ERROR_OK)
        [\<lparr>handle = 0, operation = None :: unit option\<rparr>, \<lparr>handle = 0, operation = None\<rparr>] 5
     = Some (KM_ERROR_INVALID_OPERATION_HANDLE,
             [\<lparr>handle = 0, operation = None\<rparr>, \<lparr>handle = 0, operation = None\<rparr>])"
proof -
  let ?T = "[\<lparr>handle = 5, operation = Some ()\<rparr>, \<lparr>handle = 0, operation = None\<rparr>]"
  let ?E = "[\<lparr>handle = 0, operation = None :: unit option\<rparr>, \<lparr>handle = 0, operation = None\<rparr>]"
  have found: "FindOperation ?T 5 = Some 0 \<and> operation (?T ! 0) = Some ()"
    by (simp add: FindOperation_def)
  have one: "slots_holding ?T 5 \<le> 1"
    by (simp add: slots_holding_def)
  note rel = handle_released [of ?T 5 "\<lambda>op'. KM_ERROR_OK" "\<lambda>op'. KM_ERROR_OK"
               "\<lambda>op'. (KM_ERROR_INVALID_INPUT_LENGTH, op')" "\<lambda>op'. (KM_ERROR_OK, op')"
               "\<lambda>op'. KM_ERROR_OK" "\<lambda>op'. KM_ERROR_OK"]
  note pinned = rel [THEN conjunct1, rule_format, OF found]
  from pinned have abort: "AbortOperation (\<lambda>op'. KM_ERROR_OK) ?T 5 = Some (KM_ERROR_OK, ?E)"
    by simp
  from pinned
  have update: "UpdateOperation (\<lambda>op'. (KM_ERROR_INVALID_INPUT_LENGTH, op')) ?T 5
                  = Some (KM_ERROR_INVALID_INPUT_LENGTH, ?E)"
    by simp
  from pinned one have gone: "FindOperation ?E 5 = None"
    by simp
  from rel [THEN conjunct2, THEN conjunct2, THEN conjunct1, rule_format, OF gone]
  have "AbortOperation (\<lambda>op'. KM_ERROR_OK) ?E 5 = Some (KM_ERROR_INVALID_OPERATION_HANDLE, ?E)"
    by simp
  with found one abort update gone show ?thesis by simp
qed

text \<open>
  C10. Every session that starts from the empty table runs without dereferencing a
  \<open>NULL\<close> operation, and in the table it reaches a slot has no operation exactly when
  its handle is 0. \<open>FindOperation(0)\<close> returns \<open>NULL\<close>, so \<open>Update\<close>, \<open>Finish\<close> and \<open>Abort\<close> with
  handle 0 return \<open>INVALID_OPERATION_HANDLE\<close> and leave the table unchanged, and the entry
  that \<open>FindOperation\<close> returns for any handle holds an operation.
\<close>

theorem operation_table_invariant:
  "\<exists>t. run (new_operation_table n) cs = Some t
       \<and> (\<forall>e\<in>set t. (operation e = None) = (handle e = 0))
       \<and> FindOperation t 0 = None
       \<and> UpdateOperation u t 0 = Some (KM_ERROR_INVALID_OPERATION_HANDLE, t)
       \<and> FinishOperation f t 0 = Some (KM_ERROR_INVALID_OPERATION_HANDLE, t)
       \<and> AbortOperation a t 0 = Some (KM_ERROR_INVALID_OPERATION_HANDLE, t)
       \<and> (\<forall>h i. FindOperation t h = Some i \<longrightarrow> operation (t ! i) \<noteq> None)"
proof -
  from run_total_inv [OF table_inv_new, of n cs]
  obtain t where t: "run (new_operation_table n) cs = Some t" and inv: "table_inv t"
    by auto
  have zero: "FindOperation t 0 = None"
    by (simp add: FindOperation_def)
  have occ: "\<forall>h i. FindOperation t h = Some i \<longrightarrow> operation (t ! i) \<noteq> None"
    using FindOperation_occupied [OF inv] by fastforce
  from inv have "\<forall>e\<in>set t. (operation e = None) = (handle e = 0)"
    by (simp add: table_inv_def list_all_iff)
  with t zero occ released_calls [OF zero] show ?thesis
    by blast
qed

theorem operation_table_invariant_witness:
  "run (new_operation_table 2)
       [Add () 1 7, Finish (\<lambda>op'. KM_ERROR_VERIFICATION_FAILED) 7, Add () 1 9]
     = Some [\<lparr>handle = 9, operation = Some ()\<rparr>, \<lparr>handle = 0, operation = None\<rparr>]
   \<and> table_inv [\<lparr>handle = 9, operation = Some ()\<rparr>, \<lparr>handle = 0, operation = None\<rparr>]
   \<and> FindOperation [\<lparr>handle = 9, operation = Some ()\<rparr>, \<lparr>handle = 0, operation = None\<rparr>] 0 = None
   \<and> AbortOperation (\<lambda>op'. KM_ERROR_OK)
        [\<lparr>handle = 9, operation = Some ()\<rparr>, \<lparr>handle = 0, operation = None\<rparr>] 0
     = Some (KM_ERROR_INVALID_OPERATION_HANDLE,
             [\<lparr>handle = 9, operation = Some ()\<rparr>, \<lparr>handle = 0, operation = None\<rparr>])"
proof -
  let ?cs = "[Add () 1 7, Finish (\<lambda>op'. KM_ERROR_VERIFICATION_FAILED) 7, Add () 1 9]"
  let ?T = "[\<lparr>handle = 9, operation = Some ()\<rparr>, \<lparr>handle = 0, operation = None\<rparr>]"
  have r: "run (new_operation_table 2) ?cs = Some ?T"
    by (simp add: new_operation_table_2 AddOperation_def FinishOperation_def FindOperation_def
        DeleteOperation_def)
  from operation_table_invariant [of 2 ?cs "\<lambda>op'. (KM_ERROR_OK, op')" "\<lambda>op'. KM_ERROR_OK"
         "\<lambda>op'. KM_ERROR_OK"]
  obtain t where t: "run (new_operation_table 2) ?cs = Some t"
    and inv: "\<forall>e\<in>set t. (operation e = None) = (handle e = 0)"
    and zero: "FindOperation t 0 = None"
    and abort: "AbortOperation (\<lambda>op'. KM_ERROR_OK) t 0
                  = Some (KM_ERROR_INVALID_OPERATION_HANDLE, t)"
    by blast
  from t r have "t = ?T" by simp
  with inv zero abort r show ?thesis
    by (simp add: table_inv_def)
qed

section \<open>Properties: HMAC operations\<close>

lemma CreateOperation_unfold:
  "HmacOperationFactory_CreateOperation new_ok purpose key begin_params =
     (if mac_length_bits begin_params mod 8 \<noteq> 0 then Inl KM_ERROR_UNSUPPORTED_MAC_LENGTH
      else if \<not> new_ok then Inl KM_ERROR_MEMORY_ALLOCATION_FAILED
      else if hmac_md (key_digest key) = None then Inl KM_ERROR_UNSUPPORTED_DIGEST
      else Inr (new_HmacOperation purpose (key_handle key) (key_digest key)
                  (mac_length_bits begin_params div 8)))"
proof -
  have tl: "unat (case GetTagValue_int begin_params KM_TAG_MAC_LENGTH of
                    Some v \<Rightarrow> v | None \<Rightarrow> 0) = mac_length_bits begin_params"
    by (simp add: mac_length_bits_def split: option.splits)
  have err: "hmac_error (new_HmacOperation purpose (key_handle key) (key_digest key) n)
       = (if hmac_md (key_digest key) = None then KM_ERROR_UNSUPPORTED_DIGEST else KM_ERROR_OK)"
    for n
    by (simp add: new_HmacOperation_def)
  show ?thesis
    unfolding HmacOperationFactory_CreateOperation_def Let_def tl key_digest_def [symmetric] err
    by simp
qed

lemma CreateOperation_mac_length_error:
  "HmacOperationFactory_CreateOperation new_ok purpose key begin_params
     = Inl KM_ERROR_UNSUPPORTED_MAC_LENGTH
   \<longleftrightarrow> \<not> 8 dvd mac_length_bits begin_params"
  by (simp add: CreateOperation_unfold dvd_eq_mod_eq_0)

lemma CreateOperation_Inr:
  "HmacOperationFactory_CreateOperation new_ok purpose key begin_params = Inr op'
   \<longleftrightarrow> 8 dvd mac_length_bits begin_params \<and> new_ok \<and> hmac_md (key_digest key) \<noteq> None
       \<and> op' = new_HmacOperation purpose (key_handle key) (key_digest key)
                 (mac_length_bits begin_params div 8)"
  by (auto simp add: CreateOperation_unfold dvd_eq_mod_eq_0)

lemma Begin_created:
  "HmacOperationFactory_CreateOperation new_ok purpose key begin_params = Inr op' \<Longrightarrow>
   HmacOperation_Begin op' = KM_ERROR_OK"
  by (auto simp add: CreateOperation_Inr HmacOperation_Begin_def new_HmacOperation_def)

text \<open>
  \<open>CreateOperation\<close> does not test whether the begin parameters carry \<open>MAC_LENGTH\<close>:
  \<open>tag_length\<close> keeps its initial value 0 when \<open>GetTagValue\<close> finds no such tag, and 0 passes
  the test for a multiple of 8.
\<close>

lemma CreateOperation_mac_length_absent:
  "GetTagValue_int begin_params KM_TAG_MAC_LENGTH = None \<Longrightarrow> new_ok \<Longrightarrow>
   hmac_md (key_digest key) \<noteq> None \<Longrightarrow>
   HmacOperationFactory_CreateOperation new_ok purpose key begin_params
     = Inr (new_HmacOperation purpose (key_handle key) (key_digest key) 0)"
  by (simp add: CreateOperation_unfold mac_length_bits_def)

text \<open>
  C7, as the claim states it, fails: with the SHA-256 key and \<open>MAC_LENGTH = 512\<close>, a
  multiple of 8 that exceeds the 256 bits of the digest, \<open>CreateOperation\<close> returns an
  operation and \<open>Begin\<close> returns \<open>OK\<close>.
\<close>

theorem HmacOperation_Begin_too_long_counterexample:
  "GetTagValue_int [Authorization KM_TAG_MAC_LENGTH (Integer 512)] KM_TAG_MAC_LENGTH = Some 512
   \<and> hmac_md (key_digest hmac_sha256_key) = Some EVP_sha256
   \<and> 8 * EVP_MD_size EVP_sha256 = 256
   \<and> HmacOperationFactory_CreateOperation True KM_PURPOSE_SIGN hmac_sha256_key
        [Authorization KM_TAG_MAC_LENGTH (Integer 512)]
      = Inr \<lparr>hmac_purpose = KM_PURPOSE_SIGN, hmac_error = KM_ERROR_OK, hmac_tag_length = 64,
             ctx_md = Some EVP_sha256, ctx_key = replicate 16 0x0b, ctx_data = []\<rparr>
   \<and> HmacOperation_Begin
        \<lparr>hmac_purpose = KM_PURPOSE_SIGN, hmac_error = KM_ERROR_OK, hmac_tag_length = 64,
         ctx_md = Some EVP_sha256, ctx_key = replicate 16 0x0b, ctx_data = []\<rparr> = KM_ERROR_OK"
  by (simp add: HmacOperationFactory_CreateOperation_def key_digest_def
      hmac_sha256_key_def GetTagValue_defs new_HmacOperation_def HmacOperation_Begin_def)

text \<open>
  C7, amended. For begin parameters that carry \<open>MAC_LENGTH\<close> (in bits): \<open>CreateOperation\<close>
  fails with \<open>UNSUPPORTED_MAC_LENGTH\<close> exactly when \<open>MAC_LENGTH\<close> is not a multiple of 8.
  For a supported digest of the key, the allocation succeeding, the operation is
  created and \<open>Begin\<close> returns \<open>OK\<close> exactly when \<open>MAC_LENGTH\<close> is a multiple of 8. A
  \<open>MAC_LENGTH\<close> beyond the output of the digest is found at \<open>Finish\<close>: for a signing
  operation whose MAC was computed, \<open>Finish\<close> returns \<open>UNSUPPORTED_MAC_LENGTH\<close> exactly when
  \<open>MAC_LENGTH\<close> exceeds the digest's output length.
\<close>

theorem HmacOperation_Begin_mac_length:
  assumes "GetTagValue_int begin_params KM_TAG_MAC_LENGTH = Some mac_length"
  shows
    "(HmacOperationFactory_CreateOperation new_ok purpose key begin_params
        = Inl KM_ERROR_UNSUPPORTED_MAC_LENGTH
      \<longleftrightarrow> \<not> 8 dvd unat mac_length)
     \<and> (new_ok \<and> hmac_md (key_digest key) \<noteq> None \<longrightarrow>
          ((\<exists>op'. HmacOperationFactory_CreateOperation new_ok purpose key begin_params = Inr op'
                  \<and> HmacOperation_Begin op' = KM_ERROR_OK)
           \<longleftrightarrow> 8 dvd unat mac_length))
     \<and> (\<forall>op' md data mac.
           HmacOperationFactory_CreateOperation new_ok KM_PURPOSE_SIGN key begin_params = Inr op'
           \<and> ctx_md op' = Some md \<and> HMAC_Final env md (ctx_key op') data = Some mac
           \<and> length mac = EVP_MD_size md \<longrightarrow>
           (fst (HmacOperation_Finish env (op'\<lparr>ctx_data := data\<rparr>) signature)
              = KM_ERROR_UNSUPPORTED_MAC_LENGTH
            \<longleftrightarrow> 8 * EVP_MD_size md < unat mac_length))"
proof (intro conjI impI allI)
  from assms have m: "mac_length_bits begin_params = unat mac_length"
    by (simp add: mac_length_bits_def)
  show "HmacOperationFactory_CreateOperation new_ok purpose key begin_params
       = Inl KM_ERROR_UNSUPPORTED_MAC_LENGTH
     \<longleftrightarrow> \<not> 8 dvd unat mac_length"
    using CreateOperation_mac_length_error [of new_ok purpose key begin_params] m by simp
  show "(\<exists>op'. HmacOperationFactory_CreateOperation new_ok purpose key begin_params = Inr op'
                \<and> HmacOperation_Begin op' = KM_ERROR_OK)
         \<longleftrightarrow> 8 dvd unat mac_length"
    if "new_ok \<and> hmac_md (key_digest key) \<noteq> None"
    using that Begin_created [of new_ok purpose key begin_params] m
    by (auto simp add: CreateOperation_Inr)
  fix op' md data mac
  assume a: "HmacOperationFactory_CreateOperation new_ok KM_PURPOSE_SIGN key begin_params = Inr op'
         \<and> ctx_md op' = Some md \<and> HMAC_Final env md (ctx_key op') data = Some mac
         \<and> length mac = EVP_MD_size md"
  then have op': "hmac_tag_length op' = unat mac_length div 8"
    "hmac_purpose op' = KM_PURPOSE_SIGN" "8 dvd unat mac_length"
    using m by (auto simp add: CreateOperation_Inr new_HmacOperation_def)
  from op'(3) have "EVP_MD_size md < unat mac_length div 8
       \<longleftrightarrow> 8 * EVP_MD_size md < unat mac_length"
    by (auto elim!: dvdE)
  with a op' show "fst (HmacOperation_Finish env (op'\<lparr>ctx_data := data\<rparr>) signature)
            = KM_ERROR_UNSUPPORTED_MAC_LENGTH
          \<longleftrightarrow> 8 * EVP_MD_size md < unat mac_length"
    by (auto simp add: HmacOperation_Finish_def Let_def)
qed

theorem HmacOperation_Begin_mac_length_witness:
  "(\<exists>op'. HmacOperationFactory_CreateOperation True KM_PURPOSE_SIGN hmac_sha256_key
             [Authorization KM_TAG_MAC_LENGTH (Integer 256)] = Inr op'
          \<and> HmacOperation_Begin op' = KM_ERROR_OK)
   \<and> HmacOperationFactory_CreateOperation True KM_PURPOSE_SIGN hmac_sha256_key
        [Authorization KM_TAG_MAC_LENGTH (Integer 33)] = Inl KM_ERROR_UNSUPPORTED_MAC_LENGTH
   \<and> fst (HmacOperation_Finish example_hmac_backend
            \<lparr>hmac_purpose = KM_PURPOSE_SIGN, hmac_error = KM_ERROR_OK, hmac_tag_length = 64,
             ctx_md = Some EVP_sha256, ctx_key = replicate 16 0x0b, ctx_data = [1, 2, 3]\<rparr> [])
      = KM_ERROR_UNSUPPORTED_MAC_LENGTH"
proof -
  have d: "hmac_md (key_digest hmac_sha256_key) = Some EVP_sha256"
    by (simp add: key_digest_def hmac_sha256_key_def GetTagValue_defs)
  have m: "GetTagValue_int [Authorization KM_TAG_MAC_LENGTH (Integer 256)] KM_TAG_MAC_LENGTH
             = Some 256"
    "GetTagValue_int [Authorization KM_TAG_MAC_LENGTH (Integer 33)] KM_TAG_MAC_LENGTH = Some 33"
    "GetTagValue_int [Authorization KM_TAG_MAC_LENGTH (Integer 512)] KM_TAG_MAC_LENGTH
       = Some 512"
    by (simp_all add: GetTagValue_defs)
  have a: "\<exists>op'. HmacOperationFactory_CreateOperation True KM_PURPOSE_SIGN hmac_sha256_key
             [Authorization KM_TAG_MAC_LENGTH (Integer 256)] = Inr op'
          \<and> HmacOperation_Begin op' = KM_ERROR_OK"
    using HmacOperation_Begin_mac_length
            [OF m(1), of True KM_PURPOSE_SIGN hmac_sha256_key, THEN conjunct2, THEN conjunct1] d
    by simp
  have b: "HmacOperationFactory_CreateOperation True KM_PURPOSE_SIGN hmac_sha256_key
        [Authorization KM_TAG_MAC_LENGTH (Integer 33)] = Inl KM_ERROR_UNSUPPORTED_MAC_LENGTH"
    using HmacOperation_Begin_mac_length
            [OF m(2), of True KM_PURPOSE_SIGN hmac_sha256_key, THEN conjunct1]
    by simp
  have created: "HmacOperationFactory_CreateOperation True KM_PURPOSE_SIGN hmac_sha256_key
        [Authorization KM_TAG_MAC_LENGTH (Integer 512)]
      = Inr \<lparr>hmac_purpose = KM_PURPOSE_SIGN, hmac_error = KM_ERROR_OK, hmac_tag_length = 64,
             ctx_md = Some EVP_sha256, ctx_key = replicate 16 0x0b, ctx_data = []\<rparr>"
    by (simp add: HmacOperationFactory_CreateOperation_def hmac_sha256_key_def GetTagValue_defs
        new_HmacOperation_def)
  have c: "fst (HmacOperation_Finish example_hmac_backend
            \<lparr>hmac_purpose = KM_PURPOSE_SIGN, hmac_error = KM_ERROR_OK, hmac_tag_length = 64,
             ctx_md = Some EVP_sha256, ctx_key = replicate 16 0x0b, ctx_data = [1, 2, 3]\<rparr> [])
      = KM_ERROR_UNSUPPORTED_MAC_LENGTH"
    using HmacOperation_Begin_mac_length
            [OF m(3), of True KM_PURPOSE_SIGN hmac_sha256_key example_hmac_backend "[]",
             THEN conjunct2, THEN conjunct2, rule_format,
             of "\<lparr>hmac_purpose = KM_PURPOSE_SIGN, hmac_error = KM_ERROR_OK, hmac_tag_length = 64,
                  ctx_md = Some EVP_sha256, ctx_key = replicate 16 0x0b, ctx_data = []\<rparr>"
                EVP_sha256 "[1, 2, 3]" "replicate 32 0x5c"]
          created
    by (simp add: example_hmac_backend_def)
  from a b c show ?thesis by simp
qed

end
